theory Spec2Isabelle
  imports Main "HOL-Library.Word" "HOL-Library.Sublist" "HOL-Library.AList"
begin

section \<open>Strings\<close>

text \<open>
  A JavaScript string is a sequence of UTF-16 code units. String literals of the source are
  written with \<open>utf16\<close> on their Basic Latin part and with explicit code units elsewhere
  (a line feed is \<open>0xA\<close>, the Naira sign is \<open>0x20A6\<close>, an emoji is its surrogate pair).
\<close>

type_synonym jsstring = "16 word list"

definition utf16 :: "string \<Rightarrow> jsstring" where
  "utf16 s = map of_char s"

text \<open>
  \<open>String.prototype.trim\<close> removes the code units of WhiteSpace and LineTerminator from
  both ends.
\<close>

definition isWhiteSpace :: "16 word \<Rightarrow> bool" where
  "isWhiteSpace c \<longleftrightarrow> c \<in> set [0x9, 0xA, 0xB, 0xC, 0xD, 0x20, 0xA0, 0x1680,
     0x2000, 0x2001, 0x2002, 0x2003, 0x2004, 0x2005, 0x2006, 0x2007, 0x2008, 0x2009, 0x200A,
     0x2028, 0x2029, 0x202F, 0x205F, 0x3000, 0xFEFF]"

definition trim :: "jsstring \<Rightarrow> jsstring" where
  "trim s = rev (dropWhile isWhiteSpace (rev (dropWhile isWhiteSpace s)))"

text \<open>
  \<open>String.prototype.toLowerCase\<close> follows the Unicode case tables, which the source takes
  from the runtime. The handlers below receive it as the parameter \<open>toLowerCase\<close>;
  \<open>toLowerCaseASCII\<close> is its restriction to Basic Latin, where only \<open>A\<close>..\<open>Z\<close> change,
  and instantiates the parameter on concrete ASCII inputs.
\<close>

definition toLowerCaseASCII :: "jsstring \<Rightarrow> jsstring" where
  "toLowerCaseASCII s = map (\<lambda>c. if 0x41 \<le> c \<and> c \<le> 0x5A then c + 0x20 else c) s"

text \<open>\<open>s.includes(m)\<close>: \<open>m\<close> occurs in \<open>s\<close> as a contiguous run.\<close>

fun str_includes :: "jsstring \<Rightarrow> jsstring \<Rightarrow> bool" where
  "str_includes [] m = (m = [])"
| "str_includes (c # cs) m = (prefix m (c # cs) \<or> str_includes cs m)"

text \<open>\<open>phoneNumber.replace(/\D/g, '')\<close>: without the unicode flag \<open>\D\<close> is every code unit
  outside \<open>0\<close>..\<open>9\<close>.\<close>

definition isDigit :: "16 word \<Rightarrow> bool" where
  "isDigit c \<longleftrightarrow> 0x30 \<le> c \<and> c \<le> 0x39"

definition stripNonDigits :: "jsstring \<Rightarrow> jsstring" where
  "stripNonDigits s = filter isDigit s"

fun digits :: "nat \<Rightarrow> jsstring" where
  "digits n = (if n < 10 then [of_nat (48 + n)] else digits (n div 10) @ [of_nat (48 + n mod 10)])"

section \<open>Values and objects\<close>

text \<open>
  The values the modelled code stores in objects: \<open>undefined\<close>, \<open>null\<close>, strings, integral
  numbers (a \<open>Date\<close> is kept as its time value), and \<open>Inherited k\<close>, the member that a
  property read finds under the key \<open>k\<close> on \<open>Object.prototype\<close>.
  An object is the map of its own properties.
\<close>

datatype jsval = Undefined | Null | Str jsstring | Num int | Inherited jsstring

type_synonym obj = "jsstring \<rightharpoonup> jsval"

definition objectPrototypeKeys :: "jsstring list" where
  "objectPrototypeKeys =
     [utf16 ''constructor'', utf16 ''hasOwnProperty'', utf16 ''isPrototypeOf'',
      utf16 ''propertyIsEnumerable'', utf16 ''toLocaleString'', utf16 ''toString'',
      utf16 ''valueOf'', utf16 ''__proto__'', utf16 ''__defineGetter__'',
      utf16 ''__defineSetter__'', utf16 ''__lookupGetter__'', utf16 ''__lookupSetter__'']"

text \<open>A property read \<open>o[k]\<close> on an object created by an object literal: the own property,
  else the member inherited from \<open>Object.prototype\<close>, else \<open>undefined\<close>.\<close>

definition getProp :: "obj \<Rightarrow> jsstring \<Rightarrow> jsval" where
  "getProp ob k =
     (case ob k of
        Some v \<Rightarrow> v
      | None \<Rightarrow> if k \<in> set objectPrototypeKeys then Inherited k else Undefined)"

fun truthy :: "jsval \<Rightarrow> bool" where
  "truthy Undefined = False"
| "truthy Null = False"
| "truthy (Str s) = (s \<noteq> [])"
| "truthy (Num n) = (n \<noteq> 0)"
| "truthy (Inherited k) = True"

text \<open>\<open>a || b\<close>\<close>

definition or_else :: "jsval \<Rightarrow> jsval \<Rightarrow> jsval" where
  "or_else a b = (if truthy a then a else b)"

text \<open>The string a template literal substitutes for a value. The members of
  \<open>Object.prototype\<close> are built-in functions, printed by the engine as native code, except
  \<open>__proto__\<close>, which reads as the prototype object itself.\<close>

fun ToString :: "jsval \<Rightarrow> jsstring" where
  "ToString Undefined = utf16 ''undefined''"
| "ToString Null = utf16 ''null''"
| "ToString (Str s) = s"
| "ToString (Num n) = (if n < 0 then 0x2D # digits (nat (- n)) else digits (nat n))"
| "ToString (Inherited k) =
     (if k = utf16 ''__proto__'' then utf16 ''[object Object]''
      else utf16 ''function '' @ (if k = utf16 ''constructor'' then utf16 ''Object'' else k)
             @ utf16 ''() { [native code] }'')"

text \<open>What a rejected promise or a \<open>throw\<close> carries: an \<open>Error\<close> with its message, or
  some other value.\<close>

datatype thrown = Error jsstring | NonError

section \<open>Conversation engine: reply texts\<close>

definition getMainMenu :: jsstring where
  "getMainMenu =
     [0xD83D, 0xDC4B] @ utf16 '' *Welcome to Develix!*'' @ [0xA] @
     [0xA] @
     [0xD83D, 0xDE80] @ utf16 '' *Technology Without Barriers*'' @ [0xA] @
     utf16 ''AI & Software solutions built in Nigeria, designed for the world.'' @ [0xA] @
     [0xA] @
     utf16 ''Please select from the menu below:'' @ [0xA] @
     [0xA] @
     utf16 ''1'' @ [0xFE0F, 0x20E3] @ utf16 '' *Custom Development* - Bring Your Ideas to Life'' @ [0xA] @
     utf16 ''2'' @ [0xFE0F, 0x20E3] @ utf16 '' *Our Products & Apps* - Ready-to-use Solutions  '' @ [0xA] @
     utf16 ''3'' @ [0xFE0F, 0x20E3] @ utf16 '' *AI Models & Solutions* - Machine Learning Services'' @ [0xA] @
     utf16 ''4'' @ [0xFE0F, 0x20E3] @ utf16 '' *Website Development* - Modern Web Solutions'' @ [0xA] @
     utf16 ''5'' @ [0xFE0F, 0x20E3] @ utf16 '' *Elixa Coin & Blockchain* - DeFi & Crypto Solutions'' @ [0xA] @
     utf16 ''6'' @ [0xFE0F, 0x20E3] @ utf16 '' *Vendra Marketplace* - AI-Powered Business Tools'' @ [0xA] @
     utf16 ''7'' @ [0xFE0F, 0x20E3] @ utf16 '' *Project Showcase* - Case Studies & Portfolio'' @ [0xA] @
     utf16 ''8'' @ [0xFE0F, 0x20E3] @ utf16 '' *Get Quote/Consultation* - Free Project Assessment'' @ [0xA] @
     utf16 ''9'' @ [0xFE0F, 0x20E3] @ utf16 '' *Contact & Support* - Get in Touch'' @ [0xA] @
     [0xA] @
     [0xD83D, 0xDCA1] @ utf16 '' *How to use:*'' @ [0xA] @
     [0x2022] @ utf16 '' Type a number (1-9)'' @ [0xA] @
     [0x2022] @ utf16 '' Use keywords like '' @ [0x22] @ utf16 ''quote'' @ [0x22] @ utf16 '', '' @ [0x22] @ utf16 ''ai'' @ [0x22] @ utf16 '', '' @ [0x22] @ utf16 ''web'' @ [0x22] @ utf16 '', '' @ [0x22] @ utf16 ''vendra'' @ [0x22, 0xA] @
     [0x2022] @ utf16 '' Type '' @ [0x22] @ utf16 ''menu'' @ [0x22] @ utf16 '' anytime to return here''"

definition getCustomDevelopmentInfo :: jsstring where
  "getCustomDevelopmentInfo =
     [0xD83D, 0xDEE0, 0xFE0F] @ utf16 '' *Custom Development Services*'' @ [0xA] @
     [0xA] @
     utf16 ''We build custom software solutions tailored to your specific needs:'' @ [0xA] @
     [0xA] @
     [0xD83D, 0xDCBB] @ utf16 '' *Our Services:*'' @ [0xA] @
     [0x2022] @ utf16 '' *Mobile Apps:* React Native, Flutter ('' @ [0x20A6] @ utf16 ''500K - '' @ [0x20A6] @ utf16 ''2M)'' @ [0xA] @
     [0x2022] @ utf16 '' *Web Applications:* React, Next.js, Node.js ('' @ [0x20A6] @ utf16 ''300K - '' @ [0x20A6] @ utf16 ''1.5M)  '' @ [0xA] @
     [0x2022] @ utf16 '' *AI/M'' @ utf16 ''L Solutions:* Custom models, API integration ('' @ [0x20A6] @ utf16 ''800K - '' @ [0x20A6] @ utf16 ''3M)'' @ [0xA] @
     [0x2022] @ utf16 '' *Enterprise Systems:* CRM, ERP, Dashboard ('' @ [0x20A6] @ utf16 ''1M - '' @ [0x20A6] @ utf16 ''5M)'' @ [0xA] @
     [0xA] @
     [0x2B50] @ utf16 '' *Recent Success:* FirstBank Nigeria - 300% transaction speed improvement'' @ [0xA] @
     [0xA] @
     [0xD83D, 0xDCCA] @ utf16 '' *Our Track Record:*'' @ [0xA] @
     [0x2022] @ utf16 '' 98% client satisfaction rate'' @ [0xA] @
     [0x2022] @ utf16 '' 150+ projects delivered'' @ [0xA] @
     [0x2022] @ utf16 '' $50M+ client ROI generated'' @ [0xA] @
     [0xA] @
     utf16 ''Would you like to discuss your project? Reply with '' @ [0x27] @ utf16 ''quote'' @ [0x27] @ utf16 '' to start!''"

definition getProductsInfo :: jsstring where
  "getProductsInfo =
     [0xD83D, 0xDCF1] @ utf16 '' *Our Ready-to-Use Products*'' @ [0xA] @
     [0xA] @
     utf16 ''Explore our collection of innovative apps and solutions:'' @ [0xA] @
     [0xA] @
     [0xD83C, 0xDFEA] @ utf16 '' *Vendra* - AI-Powered SME Platform'' @ [0xA] @
     [0x2022] @ utf16 '' '' @ [0x2082] @ utf16 ''2.5M total supply'' @ [0xA] @
     [0x2022] @ utf16 '' Multilingual marketplace for African SMEs'' @ [0xA] @
     [0x2022] @ utf16 '' AI customer engagement tools'' @ [0xA] @
     [0xA] @
     [0xD83E, 0xDE99] @ utf16 '' *Elixa Coin* - Blockchain & DeFi  '' @ [0xA] @
     [0x2022] @ utf16 '' '' @ [0x20A6] @ utf16 ''850 current price'' @ [0xA] @
     [0x2022] @ utf16 '' 15K+ token holders, 99.9% uptime'' @ [0xA] @
     [0x2022] @ utf16 '' Africa'' @ [0x27] @ utf16 ''s gateway to decentralized finance'' @ [0xA] @
     [0xA] @
     [0xD83D, 0xDEE1, 0xFE0F] @ utf16 '' *Anti-Fraud Detector* - AI Security System'' @ [0xA] @
     [0x2022] @ utf16 '' Real-time fraud detection with 95% accuracy'' @ [0xA] @
     [0x2022] @ utf16 '' Used by major banks across Nigeria'' @ [0xA] @
     [0xA] @
     [0xD83E, 0xDD16] @ utf16 '' *WhatsApp Bot* - This bot you'' @ [0x27] @ utf16 ''re using!'' @ [0xA] @
     [0x2022] @ utf16 '' Automated customer service'' @ [0xA] @
     [0x2022] @ utf16 '' Smart lead generation'' @ [0xA] @
     [0x2022] @ utf16 '' 24/7 availability'' @ [0xA] @
     [0xA] @
     utf16 ''Type the product name for more details or '' @ [0x27] @ utf16 ''menu'' @ [0x27] @ utf16 '' for main menu.''"

definition getAIInfo :: jsstring where
  "getAIInfo =
     [0xD83E, 0xDD16] @ utf16 '' *AI Models & Machine Learning*'' @ [0xA] @
     [0xA] @
     utf16 ''Advanced AI solutions powered by cutting-edge technology:'' @ [0xA] @
     [0xA] @
     [0xD83D, 0xDDE3, 0xFE0F] @ utf16 '' *Natural Language Processing*'' @ [0xA] @
     [0x2022] @ utf16 '' Multilingual support: English, Hausa, Yoruba, Igbo, Swahili'' @ [0xA] @
     [0x2022] @ utf16 '' Sentiment analysis and text classification'' @ [0xA] @
     [0x2022] @ utf16 '' Chatbot development'' @ [0xA] @
     [0xA] @
     [0xD83D, 0xDC41, 0xFE0F] @ utf16 '' *Computer Vision*  '' @ [0xA] @
     [0x2022] @ utf16 '' Medical imaging analysis'' @ [0xA] @
     [0x2022] @ utf16 '' Document processing and OCR'' @ [0xA] @
     [0x2022] @ utf16 '' Object detection and recognition'' @ [0xA] @
     [0xA] @
     [0xD83D, 0xDCCA] @ utf16 '' *Predictive Analytics*'' @ [0xA] @
     [0x2022] @ utf16 '' Financial forecasting and risk assessment  '' @ [0xA] @
     [0x2022] @ utf16 '' Market analysis and customer insights'' @ [0xA] @
     [0x2022] @ utf16 '' Business intelligence dashboards'' @ [0xA] @
     [0xA] @
     [0xD83C, 0xDFC6] @ utf16 '' *Success Stories:*'' @ [0xA] @
     [0x2022] @ utf16 '' Kuda Bank: 95% fraud reduction with our M'' @ utf16 ''L model'' @ [0xA] @
     [0x2022] @ utf16 '' LUTH: 60% faster patient diagnosis with AI'' @ [0xA] @
     [0x2022] @ utf16 '' 15+ enterprises using our AI solutions'' @ [0xA] @
     [0xA] @
     utf16 ''Ready to explore AI for your business? Type '' @ [0x27] @ utf16 ''8'' @ [0x27] @ utf16 '' for consultation!''"

definition getWebDevInfo :: jsstring where
  "getWebDevInfo =
     [0xD83C, 0xDF10] @ utf16 '' *Modern Website Development*'' @ [0xA] @
     [0xA] @
     utf16 ''Professional websites that drive results:'' @ [0xA] @
     [0xA] @
     [0xD83D, 0xDCCA] @ utf16 '' *Our Metrics:*'' @ [0xA] @
     [0x2022] @ utf16 '' 99.9% Uptime SLA'' @ [0xA] @
     [0x2022] @ utf16 '' 2-8 Week Delivery  '' @ [0xA] @
     [0x2022] @ utf16 '' Mobile-first approach'' @ [0xA] @
     [0xA] @
     [0xD83D, 0xDCB0] @ utf16 '' *Pricing:*'' @ [0xA] @
     [0x2022] @ utf16 '' *Business Websites:* '' @ [0x20A6] @ utf16 ''150K - '' @ [0x20A6] @ utf16 ''500K'' @ [0xA] @
     [0x2022] @ utf16 '' *E-commerce Platforms:* '' @ [0x20A6] @ utf16 ''400K - '' @ [0x20A6] @ utf16 ''1.2M'' @ [0xA] @
     [0x2022] @ utf16 '' *Web Applications:* '' @ [0x20A6] @ utf16 ''600K - '' @ [0x20A6] @ utf16 ''2M'' @ [0xA] @
     [0x2022] @ utf16 '' *Enterprise Portals:* '' @ [0x20A6] @ utf16 ''1M - '' @ [0x20A6] @ utf16 ''5M'' @ [0xA] @
     [0xA] @
     [0xD83D, 0xDEE0, 0xFE0F] @ utf16 '' *Technology Stack:*'' @ [0xA] @
     utf16 ''React '' @ [0x2022] @ utf16 '' Next.js '' @ [0x2022] @ utf16 '' Node.js '' @ [0x2022] @ utf16 '' AWS '' @ [0x2022] @ utf16 '' Docker'' @ [0xA] @
     [0xA] @
     [0x2705] @ utf16 '' *What'' @ [0x27] @ utf16 ''s Included:*'' @ [0xA] @
     [0x2022] @ utf16 '' Responsive design for all devices'' @ [0xA] @
     [0x2022] @ utf16 '' SEO optimization  '' @ [0xA] @
     [0x2022] @ utf16 '' Security implementation'' @ [0xA] @
     [0x2022] @ utf16 '' Performance optimization'' @ [0xA] @
     [0x2022] @ utf16 '' 6 months free maintenance'' @ [0xA] @
     [0xA] @
     utf16 ''Ready to start your web project? Type '' @ [0x27] @ utf16 ''8'' @ [0x27] @ utf16 '' for a free quote!''"

definition getBlockchainInfo :: jsstring where
  "getBlockchainInfo =
     [0x26D3, 0xFE0F] @ utf16 '' *Elixa Coin & Blockchain Solutions*'' @ [0xA] @
     [0xA] @
     utf16 ''Africa'' @ [0x27] @ utf16 ''s gateway to decentralized finance:'' @ [0xA] @
     [0xA] @
     [0xD83D, 0xDCC8] @ utf16 '' *Live Metrics:*'' @ [0xA] @
     [0x2022] @ utf16 '' 2.5M Total Supply (Fixed)'' @ [0xA] @
     [0x2022] @ utf16 '' '' @ [0x20A6] @ utf16 ''850 Current Price'' @ [0xA] @
     [0x2022] @ utf16 '' 15K+ Token Holders  '' @ [0xA] @
     [0x2022] @ utf16 '' 99.9% Network Uptime'' @ [0xA] @
     [0xA] @
     [0xD83D, 0xDCB0] @ utf16 '' *Key Benefits:*'' @ [0xA] @
     [0x2022] @ utf16 '' *Cross-Border Payments:* <1% fees vs 8-12% traditional'' @ [0xA] @
     [0x2022] @ utf16 '' *DeFi Savings:* Up to 12% APY staking rewards'' @ [0xA] @
     [0x2022] @ utf16 '' *Merchant Integration:* Instant crypto payments'' @ [0xA] @
     [0xA] @
     [0xD83C, 0xDFD7, 0xFE0F] @ utf16 '' *Blockchain Services:*'' @ [0xA] @
     [0x2022] @ utf16 '' Smart Contract Development'' @ [0xA] @
     [0x2022] @ utf16 '' DeFi Protocol Creation  '' @ [0xA] @
     [0x2022] @ utf16 '' Cryptocurrency Integration'' @ [0xA] @
     [0x2022] @ utf16 '' NFT Marketplace Development'' @ [0xA] @
     [0xA] @
     [0xD83D, 0xDD12] @ utf16 '' *Security & Compliance:*'' @ [0xA] @
     [0x2022] @ utf16 '' Audited by leading blockchain security firms'' @ [0xA] @
     [0x2022] @ utf16 '' Fully compliant with Nigerian SEC'' @ [0xA] @
     [0x2022] @ utf16 '' Built on Polygon for scalability'' @ [0xA] @
     [0xA] @
     utf16 ''Get ELX tokens or learn more? Type '' @ [0x27] @ utf16 ''elixa'' @ [0x27] @ utf16 '' for details!''"

definition getVendraInfo :: jsstring where
  "getVendraInfo =
     [0xD83C, 0xDFEA] @ utf16 '' *Vendra - AI-Powered SME Platform*'' @ [0xA] @
     [0xA] @
     utf16 ''Empowering African small businesses with smart tools:'' @ [0xA] @
     [0xA] @
     [0xD83D, 0xDCCA] @ utf16 '' *Live Marketplace Metrics:*'' @ [0xA] @
     [0x2022] @ utf16 '' '' @ [0x20A6] @ utf16 ''42.3M 24h Sales Volume (+22.1%)'' @ [0xA] @
     [0x2022] @ utf16 '' 2,314 Active Vendors'' @ [0xA] @
     [0x2022] @ utf16 '' 96% Order Fulfillment Rate'' @ [0xA] @
     [0x2022] @ utf16 '' 4.7'' @ [0x2605] @ utf16 '' Customer Rating'' @ [0xA] @
     [0xA] @
     [0xD83D, 0xDE80] @ utf16 '' *Key Features:*'' @ [0xA] @
     [0x2022] @ utf16 '' *Multilingual AI:* English, Hausa, Yoruba, Igbo, Swahili, French'' @ [0xA] @
     [0x2022] @ utf16 '' *Mobile-First:* Works on 2G networks, offline processing  '' @ [0xA] @
     [0x2022] @ utf16 '' *Smart Analytics:* Sales forecasting, customer insights'' @ [0xA] @
     [0x2022] @ utf16 '' *Social Commerce:* WhatsApp/Instagram integration'' @ [0xA] @
     [0xA] @
     [0xD83D, 0xDCB3] @ utf16 '' *Payment Options:*'' @ [0xA] @
     [0x2022] @ utf16 '' Mobile money (M-Pesa, Airtel Money)'' @ [0xA] @
     [0x2022] @ utf16 '' Bank transfers'' @ [0xA] @
     [0x2022] @ utf16 '' Cryptocurrency payments'' @ [0xA] @
     [0x2022] @ utf16 '' Instant settlement'' @ [0xA] @
     [0xA] @
     [0xD83C, 0xDFAF] @ utf16 '' *Perfect For:*'' @ [0xA] @
     [0x2022] @ utf16 '' Small retailers and vendors'' @ [0xA] @
     [0x2022] @ utf16 '' Service providers'' @ [0xA] @
     [0x2022] @ utf16 '' E-commerce businesses'' @ [0xA] @
     [0x2022] @ utf16 '' Social media sellers'' @ [0xA] @
     [0xA] @
     utf16 ''Start your free trial? Type '' @ [0x27] @ utf16 ''vendra'' @ [0x27] @ utf16 '' for access!''"

definition getPortfolioInfo :: jsstring where
  "getPortfolioInfo =
     [0xD83C, 0xDFC6] @ utf16 '' *Our Success Stories*'' @ [0xA] @
     [0xA] @
     utf16 ''Proven track record of delivering exceptional results:'' @ [0xA] @
     [0xA] @
     [0xD83D, 0xDCCA] @ utf16 '' *Company Metrics:*'' @ [0xA] @
     [0x2022] @ utf16 '' 150+ Projects Completed'' @ [0xA] @
     [0x2022] @ utf16 '' 98% Client Satisfaction'' @ [0xA] @
     [0x2022] @ utf16 '' $50M+ Client ROI Generated'' @ [0xA] @
     [0xA] @
     [0xD83C, 0xDFE6] @ utf16 '' *Featured Case Studies:*'' @ [0xA] @
     [0xA] @
     utf16 ''*FirstBank Nigeria* - Digital Transformation'' @ [0xA] @
     [0x2022] @ utf16 '' 300% transaction speed improvement'' @ [0xA] @
     [0x2022] @ utf16 '' $12M operational savings'' @ [0xA] @
     [0x2022] @ utf16 '' 6-month implementation'' @ [0xA] @
     [0xA] @
     utf16 ''*Kuda Bank* - AI Fraud Detection  '' @ [0xA] @
     [0x2022] @ utf16 '' 95% fraud reduction'' @ [0xA] @
     [0x2022] @ utf16 '' $25M losses prevented'' @ [0xA] @
     [0x2022] @ utf16 '' 4-month development'' @ [0xA] @
     [0xA] @
     utf16 ''*LUTH Hospital* - Patient Management'' @ [0xA] @
     [0x2022] @ utf16 '' 60% faster diagnosis'' @ [0xA] @
     [0x2022] @ utf16 '' $2.5M cost savings'' @ [0xA] @
     [0x2022] @ utf16 '' AI-powered system'' @ [0xA] @
     [0xA] @
     [0xD83C, 0xDFAF] @ utf16 '' *Industries We Serve:*'' @ [0xA] @
     [0x2022] @ utf16 '' FinTech & Banking'' @ [0xA] @
     [0x2022] @ utf16 '' Healthcare'' @ [0xA] @
     [0x2022] @ utf16 '' E-commerce'' @ [0xA] @
     [0x2022] @ utf16 '' Government'' @ [0xA] @
     [0x2022] @ utf16 '' Education'' @ [0xA] @
     [0xA] @
     utf16 ''View detailed case studies? Type '' @ [0x27] @ utf16 ''portfolio'' @ [0x27] @ utf16 '' for full showcase!''"

definition getQuoteInfo_text :: jsstring where
  "getQuoteInfo_text =
     [0xD83D, 0xDCA1] @ utf16 '' *Get Your Free Consultation*'' @ [0xA] @
     [0xA] @
     utf16 ''Let'' @ [0x27] @ utf16 ''s discuss your project and provide a detailed quote:'' @ [0xA] @
     [0xA] @
     [0xD83C, 0xDFAF] @ utf16 '' *What You'' @ [0x27] @ utf16 ''ll Get:*'' @ [0xA] @
     [0x2705] @ utf16 '' Detailed project analysis & requirements'' @ [0xA] @
     [0x2705] @ utf16 '' Technology recommendations  '' @ [0xA] @
     [0x2705] @ utf16 '' Accurate timeline & budget estimate'' @ [0xA] @
     [0x2705] @ utf16 '' 30-minute strategy call with our founders'' @ [0xA] @
     [0xA] @
     [0xD83D, 0xDCDD] @ utf16 '' *Quick Project Assessment:*'' @ [0xA] @
     [0xA] @
     utf16 ''What type of project do you need?'' @ [0xA] @
     [0xA] @
     utf16 ''1. Mobile App Development'' @ [0xA] @
     utf16 ''2. Website Development  '' @ [0xA] @
     utf16 ''3. AI/M'' @ utf16 ''L Solution'' @ [0xA] @
     utf16 ''4. Blockchain Integration'' @ [0xA] @
     utf16 ''5. Enterprise System'' @ [0xA] @
     utf16 ''6. Other (please specify)'' @ [0xA] @
     [0xA] @
     utf16 ''Please type the number or describe your project:''"

definition getContactInfo :: jsstring where
  "getContactInfo =
     [0xD83D, 0xDCDE] @ utf16 '' *Get in Touch*'' @ [0xA] @
     [0xA] @
     utf16 ''Multiple ways to connect with our team:'' @ [0xA] @
     [0xA] @
     [0xD83D, 0xDCF1] @ utf16 '' *WhatsApp Direct:* +234 810 751 6059'' @ [0xA] @
     [0x2709, 0xFE0F] @ utf16 '' *Email:* hello@develix.com  '' @ [0xA] @
     [0xD83C, 0xDF10] @ utf16 '' *Website:* www.develix.com'' @ [0xA] @
     [0xA] @
     [0xD83D, 0xDC68, 0x200D, 0xD83D, 0xDCBB] @ utf16 '' *Meet Our Founders:*'' @ [0xA] @
     [0x2022] @ utf16 '' *Alexius Dubem (17)* - CEO & Co-Founder'' @ [0xA] @
     [0x2022] @ utf16 '' *Jerome Ebube (16)* - CTO & Co-Founder'' @ [0xA] @
     [0xD83C, 0xDDF3, 0xD83C, 0xDDEC] @ utf16 '' Built in Anambra State, Nigeria'' @ [0xA] @
     [0xA] @
     [0xD83D, 0xDD52] @ utf16 '' *Business Hours:*'' @ [0xA] @
     utf16 ''Monday - Friday: 9:00 AM - 6:00 PM (WAT)'' @ [0xA] @
     utf16 ''Emergency support: 24/7 available'' @ [0xA] @
     [0xA] @
     [0xD83C, 0xDFAF] @ utf16 '' *Office Location:*'' @ [0xA] @
     utf16 ''Anambra State, Nigeria'' @ [0xA] @
     [0xA] @
     utf16 ''Ready to schedule a meeting? Type '' @ [0x27] @ utf16 ''8'' @ [0x27] @ utf16 '' for consultation booking!''"

definition budgetPrompt :: jsstring where
  "budgetPrompt =
     [0xD83D, 0xDCB0] @ utf16 '' What'' @ [0x27] @ utf16 ''s your budget range?'' @ [0xA] @
     [0xA] @
     utf16 ''1. '' @ [0x20A6] @ utf16 ''100K - '' @ [0x20A6] @ utf16 ''500K'' @ [0xA] @
     utf16 ''2. '' @ [0x20A6] @ utf16 ''500K - '' @ [0x20A6] @ utf16 ''1M'' @ [0xA] @
     utf16 ''3. '' @ [0x20A6] @ utf16 ''1M - '' @ [0x20A6] @ utf16 ''3M'' @ [0xA] @
     utf16 ''4. '' @ [0x20A6] @ utf16 ''3M - '' @ [0x20A6] @ utf16 ''5M'' @ [0xA] @
     utf16 ''5. '' @ [0x20A6] @ utf16 ''5M+'' @ [0xA] @
     [0xA] @
     utf16 ''Please type the number or your budget range:''"

definition timelinePrompt :: jsstring where
  "timelinePrompt =
     [0x23F0] @ utf16 '' What'' @ [0x27] @ utf16 ''s your timeline?'' @ [0xA] @
     [0xA] @
     utf16 ''1. ASAP (Rush)'' @ [0xA] @
     utf16 ''2. 1-3 months'' @ [0xA] @
     utf16 ''3. 3-6 months'' @ [0xA] @
     utf16 ''4. 6+ months'' @ [0xA] @
     [0xA] @
     utf16 ''Please type the number or your timeline:''"

definition descriptionPrompt :: jsstring where
  "descriptionPrompt =
     [0xD83D, 0xDCDD] @ utf16 '' Please provide a brief description of your project and any specific requirements:''"

definition namePrompt :: jsstring where
  "namePrompt =
     [0xD83D, 0xDC64] @ utf16 '' What'' @ [0x27] @ utf16 ''s your name? (This helps us personalize our service)''"

definition summaryMessage :: "jsval \<Rightarrow> jsval \<Rightarrow> jsval \<Rightarrow> jsval \<Rightarrow> jsstring" where
  "summaryMessage n p b t =
     [0xD83C, 0xDF89] @ utf16 '' Thank you '' @
     ToString n @
     utf16 ''! Your project inquiry has been submitted.'' @ [0xA] @
     [0xA] @
     [0xD83D, 0xDCCB] @ utf16 '' Summary:'' @ [0xA] @
     [0x2022] @ utf16 '' Project: '' @
     ToString p @
     [0xA] @
     [0x2022] @ utf16 '' Budget: '' @
     ToString b @
     [0xA] @
     [0x2022] @ utf16 '' Timeline: '' @
     ToString t @
     [0xA] @
     [0xA] @
     [0x2705] @ utf16 '' Our team will review your requirements and contact you within 24 hours with a detailed proposal.'' @ [0xA] @
     [0xA] @
     [0xD83D, 0xDCDE] @ utf16 '' For urgent matters, call us directly at +234 810 751 6059'' @ [0xA] @
     [0xA] @
     utf16 ''Type '' @ [0x27] @ utf16 ''menu'' @ [0x27] @ utf16 '' to return to the main menu.''"

section \<open>Conversation engine: state and repository interface\<close>

record BotState =
  currentMenu :: jsstring
  leadFormStep :: nat
  leadData :: obj

text \<open>
  \<open>IStorage\<close>, restricted to the methods the modelled code calls. A method takes the
  repository state and returns the promise's outcome (\<open>Inl\<close> when it rejects) with the new
  state.
\<close>

record 's IStorage =
  createLead :: "obj \<Rightarrow> 's \<Rightarrow> (thrown + obj) \<times> 's"
  updateLead :: "jsstring \<Rightarrow> obj \<Rightarrow> 's \<Rightarrow> (thrown + obj option) \<times> 's"
  createBotMessage :: "obj \<Rightarrow> 's \<Rightarrow> (thrown + obj) \<times> 's"

section \<open>Conversation engine: menu machine\<close>

text \<open>\<open>getQuoteInfo\<close> is the one menu reply with an effect: it moves the session into the
  lead form.\<close>

definition getQuoteInfo :: "BotState \<Rightarrow> jsstring \<times> BotState" where
  "getQuoteInfo userState =
     (getQuoteInfo_text, userState\<lparr>currentMenu := utf16 ''lead_form'', leadFormStep := 1\<rparr>)"

text \<open>The \<open>case\<close> labels of the \<open>switch\<close> in \<open>handleMainMenu\<close>, one list per branch.\<close>

definition customLabels :: "jsstring list" where
  "customLabels = [utf16 ''1'', utf16 ''custom'', utf16 ''custom development'',
     utf16 ''development'', utf16 ''dev'']"

definition productsLabels :: "jsstring list" where
  "productsLabels = [utf16 ''2'', utf16 ''products'', utf16 ''product'', utf16 ''apps'',
     utf16 ''app'']"

definition aiLabels :: "jsstring list" where
  "aiLabels = [utf16 ''3'', utf16 ''ai'', utf16 ''artificial intelligence'', utf16 ''ml'',
     utf16 ''machine learning'']"

definition webLabels :: "jsstring list" where
  "webLabels = [utf16 ''4'', utf16 ''web'', utf16 ''website'', utf16 ''web development'',
     utf16 ''web dev'']"

definition blockchainLabels :: "jsstring list" where
  "blockchainLabels = [utf16 ''5'', utf16 ''blockchain'', utf16 ''elixa'', utf16 ''crypto'',
     utf16 ''defi'']"

definition vendraLabels :: "jsstring list" where
  "vendraLabels = [utf16 ''6'', utf16 ''vendra'', utf16 ''marketplace'']"

definition portfolioLabels :: "jsstring list" where
  "portfolioLabels = [utf16 ''7'', utf16 ''portfolio'', utf16 ''showcase'', utf16 ''projects'',
     utf16 ''case studies'']"

definition quoteLabels :: "jsstring list" where
  "quoteLabels = [utf16 ''8'', utf16 ''quote'', utf16 ''quotes'', utf16 ''qoute'',
     utf16 ''qotw'', utf16 ''consultation'', utf16 ''consult'', utf16 ''estimate'']"

definition contactLabels :: "jsstring list" where
  "contactLabels = [utf16 ''9'', utf16 ''contact'', utf16 ''support'', utf16 ''help'',
     utf16 ''reach'']"

definition navigationLabels :: "jsstring list" where
  "navigationLabels = [utf16 ''menu'', utf16 ''start'', utf16 ''main'', utf16 ''home'']"

text \<open>The markers of the \<open>default\<close> branch, one list per \<open>if\<close>, in the order of the source.\<close>

definition quoteMarkers :: "jsstring list" where
  "quoteMarkers = [utf16 ''project'', utf16 ''quote'', utf16 ''qoute'', utf16 ''development'',
     utf16 ''estimate'', utf16 ''consult'']"

definition aiMarkers :: "jsstring list" where
  "aiMarkers = [utf16 ''ai'', utf16 ''artificial'', utf16 ''machine'']"

definition webMarkers :: "jsstring list" where
  "webMarkers = [utf16 ''web'', utf16 ''website'']"

definition blockchainMarkers :: "jsstring list" where
  "blockchainMarkers = [utf16 ''blockchain'', utf16 ''crypto'', utf16 ''elixa'']"

definition vendraMarkers :: "jsstring list" where
  "vendraMarkers = [utf16 ''vendra'', utf16 ''marketplace'']"

definition portfolioMarkers :: "jsstring list" where
  "portfolioMarkers = [utf16 ''portfolio'', utf16 ''showcase'', utf16 ''case'']"

definition contactMarkers :: "jsstring list" where
  "contactMarkers = [utf16 ''contact'', utf16 ''support'', utf16 ''reach'']"

definition productsMarkers :: "jsstring list" where
  "productsMarkers = [utf16 ''product'', utf16 ''app'']"

definition handleMainMenu ::
  "(jsstring \<Rightarrow> jsstring) \<Rightarrow> jsstring \<Rightarrow> jsstring \<Rightarrow> BotState \<Rightarrow> jsstring \<times> BotState" where
  "handleMainMenu toLowerCase phoneNumber messageText userState =
     (let input = toLowerCase (trim messageText) in
      if input \<in> set customLabels then (getCustomDevelopmentInfo, userState)
      else if input \<in> set productsLabels then (getProductsInfo, userState)
      else if input \<in> set aiLabels then (getAIInfo, userState)
      else if input \<in> set webLabels then (getWebDevInfo, userState)
      else if input \<in> set blockchainLabels then (getBlockchainInfo, userState)
      else if input \<in> set vendraLabels then (getVendraInfo, userState)
      else if input \<in> set portfolioLabels then (getPortfolioInfo, userState)
      else if input \<in> set quoteLabels then getQuoteInfo userState
      else if input \<in> set contactLabels then (getContactInfo, userState)
      else if input \<in> set navigationLabels then (getMainMenu, userState)
      else if list_ex (str_includes input) quoteMarkers then getQuoteInfo userState
      else if list_ex (str_includes input) aiMarkers then (getAIInfo, userState)
      else if list_ex (str_includes input) webMarkers then (getWebDevInfo, userState)
      else if list_ex (str_includes input) blockchainMarkers then (getBlockchainInfo, userState)
      else if list_ex (str_includes input) vendraMarkers then (getVendraInfo, userState)
      else if list_ex (str_includes input) portfolioMarkers then (getPortfolioInfo, userState)
      else if list_ex (str_includes input) contactMarkers then (getContactInfo, userState)
      else if list_ex (str_includes input) productsMarkers then (getProductsInfo, userState)
      else (getMainMenu, userState))"

section \<open>Conversation engine: lead form\<close>

definition budgetOptions :: obj where
  "budgetOptions =
     [utf16 ''1'' \<mapsto> Str ([0x20A6] @ utf16 ''100K - '' @ [0x20A6] @ utf16 ''500K''),
      utf16 ''2'' \<mapsto> Str ([0x20A6] @ utf16 ''500K - '' @ [0x20A6] @ utf16 ''1M''),
      utf16 ''3'' \<mapsto> Str ([0x20A6] @ utf16 ''1M - '' @ [0x20A6] @ utf16 ''3M''),
      utf16 ''4'' \<mapsto> Str ([0x20A6] @ utf16 ''3M - '' @ [0x20A6] @ utf16 ''5M''),
      utf16 ''5'' \<mapsto> Str ([0x20A6] @ utf16 ''5M+'')]"

definition timelineOptions :: obj where
  "timelineOptions =
     [utf16 ''1'' \<mapsto> Str (utf16 ''ASAP (Rush)''),
      utf16 ''2'' \<mapsto> Str (utf16 ''1-3 months''),
      utf16 ''3'' \<mapsto> Str (utf16 ''3-6 months''),
      utf16 ''4'' \<mapsto> Str (utf16 ''6+ months'')]"

text \<open>
  \<open>handleLeadForm\<close> mutates the session object it is given; the model returns the object as
  it is when the call ends, also when the call ends by a rejection of \<open>createLead\<close>.
  At step 5 the draft is replaced by \<open>{}\<close> before the summary is built, and the summary
  reads its fields from the session object.
\<close>

definition handleLeadForm ::
  "(jsstring \<Rightarrow> jsstring) \<Rightarrow> 's IStorage \<Rightarrow> jsstring \<Rightarrow> jsstring \<Rightarrow> BotState \<Rightarrow> 's
     \<Rightarrow> (thrown + jsstring) \<times> BotState \<times> 's" where
  "handleLeadForm toLowerCase storage phoneNumber messageText userState s =
     (let input = trim messageText;
          lowerInput = toLowerCase input
      in
      if lowerInput = utf16 ''menu'' \<or> lowerInput = utf16 ''cancel'' \<or>
         lowerInput = utf16 ''exit'' \<or> lowerInput = utf16 ''back''
      then (Inr getMainMenu,
            userState\<lparr>currentMenu := utf16 ''main'', leadFormStep := 0, leadData := Map.empty\<rparr>, s)
      else if leadFormStep userState = 1 then
        (Inr budgetPrompt,
         userState\<lparr>leadData := (leadData userState)(utf16 ''projectType'' \<mapsto> Str input),
                    leadFormStep := 2\<rparr>, s)
      else if leadFormStep userState = 2 then
        (Inr timelinePrompt,
         userState\<lparr>leadData := (leadData userState)
                      (utf16 ''budget'' \<mapsto> or_else (getProp budgetOptions input) (Str input)),
                    leadFormStep := 3\<rparr>, s)
      else if leadFormStep userState = 3 then
        (Inr descriptionPrompt,
         userState\<lparr>leadData := (leadData userState)
                      (utf16 ''timeline'' \<mapsto> or_else (getProp timelineOptions input) (Str input)),
                    leadFormStep := 4\<rparr>, s)
      else if leadFormStep userState = 4 then
        (Inr namePrompt,
         userState\<lparr>leadData := (leadData userState)(utf16 ''description'' \<mapsto> Str input),
                    leadFormStep := 5\<rparr>, s)
      else if leadFormStep userState = 5 then
        (let userState1 = userState\<lparr>leadData := (leadData userState)(utf16 ''name'' \<mapsto> Str input)\<rparr>;
             draft = leadData userState1;
             (saved, s1) = createLead storage
                [utf16 ''phoneNumber'' \<mapsto> Str phoneNumber,
                 utf16 ''name'' \<mapsto> getProp draft (utf16 ''name''),
                 utf16 ''projectType'' \<mapsto> getProp draft (utf16 ''projectType''),
                 utf16 ''budget'' \<mapsto> getProp draft (utf16 ''budget''),
                 utf16 ''timeline'' \<mapsto> getProp draft (utf16 ''timeline''),
                 utf16 ''description'' \<mapsto> getProp draft (utf16 ''description''),
                 utf16 ''status'' \<mapsto> Str (utf16 ''new'')] s
         in case saved of
              Inl e \<Rightarrow> (Inl e, userState1, s1)
            | Inr lead \<Rightarrow>
                (let userState2 = userState1\<lparr>currentMenu := utf16 ''main'', leadFormStep := 0,
                                             leadData := Map.empty\<rparr>;
                     cleared = leadData userState2
                 in (Inr (summaryMessage (getProp cleared (utf16 ''name''))
                            (getProp cleared (utf16 ''projectType''))
                            (getProp cleared (utf16 ''budget''))
                            (getProp cleared (utf16 ''timeline''))),
                     userState2, s1)))
      else (Inr getMainMenu, userState\<lparr>currentMenu := utf16 ''main'', leadFormStep := 0\<rparr>, s))"

section \<open>Repository: the in-memory implementation\<close>

text \<open>
  \<open>randomUUID()\<close> and \<open>new Date()\<close> come from the runtime: \<open>randomUUID h n\<close> and
  \<open>dateNow h n\<close> are what the \<open>n\<close>-th call to the runtime returns, and the repository
  counts its calls in \<open>hostCalls\<close>. A \<open>Map\<close> is an association list in insertion order;
  \<open>Map.set\<close> replaces the entry of an existing key in place and appends a new key, which
  is \<open>AList.update\<close>. Of \<open>MemStorage\<close>, the leads and the message log are modelled.
\<close>

record Host =
  randomUUID :: "nat \<Rightarrow> jsstring"
  dateNow :: "nat \<Rightarrow> int"

record MemStorage =
  leads :: "(jsstring \<times> obj) list"
  botMessages :: "(jsstring \<times> obj) list"
  hostCalls :: nat

definition MemStorage_new :: MemStorage where
  "MemStorage_new = \<lparr>leads = [], botMessages = [], hostCalls = 0\<rparr>"

definition MemStorage_createLead :: "Host \<Rightarrow> obj \<Rightarrow> MemStorage \<Rightarrow> (thrown + obj) \<times> MemStorage" where
  "MemStorage_createLead h insertLead st =
     (let n = hostCalls st;
          ident = randomUUID h n;
          lead = insertLead(utf16 ''id'' \<mapsto> Str ident,
                            utf16 ''createdAt'' \<mapsto> Num (dateNow h (n + 1)),
                            utf16 ''updatedAt'' \<mapsto> Num (dateNow h (n + 2)))
      in (Inr lead, st\<lparr>leads := AList.update ident lead (leads st), hostCalls := n + 3\<rparr>))"

definition MemStorage_getLeads :: "MemStorage \<Rightarrow> obj list" where
  "MemStorage_getLeads st = map snd (leads st)"

definition MemStorage_updateLead ::
  "Host \<Rightarrow> jsstring \<Rightarrow> obj \<Rightarrow> MemStorage \<Rightarrow> (thrown + obj option) \<times> MemStorage" where
  "MemStorage_updateLead h ident updates st =
     (case map_of (leads st) ident of
        Some lead \<Rightarrow>
          (let n = hostCalls st;
               updatedLead = (lead ++ updates)(utf16 ''updatedAt'' \<mapsto> Num (dateNow h n))
           in (Inr (Some updatedLead),
               st\<lparr>leads := AList.update ident updatedLead (leads st), hostCalls := n + 1\<rparr>))
      | None \<Rightarrow> (Inr None, st))"

definition MemStorage_createBotMessage ::
  "Host \<Rightarrow> obj \<Rightarrow> MemStorage \<Rightarrow> (thrown + obj) \<times> MemStorage" where
  "MemStorage_createBotMessage h insertMessage st =
     (let n = hostCalls st;
          ident = randomUUID h n;
          message = insertMessage(utf16 ''id'' \<mapsto> Str ident,
                                  utf16 ''timestamp'' \<mapsto> Num (dateNow h (n + 1)))
      in (Inr message,
          st\<lparr>botMessages := AList.update ident message (botMessages st), hostCalls := n + 2\<rparr>))"

definition memStorage :: "Host \<Rightarrow> MemStorage IStorage" where
  "memStorage h =
     \<lparr>createLead = MemStorage_createLead h,
      updateLead = MemStorage_updateLead h,
      createBotMessage = MemStorage_createBotMessage h\<rparr>"

section \<open>Admin surface: the lead update route\<close>

text \<open>\<open>PATCH /api/leads/:id\<close>: the request body goes to \<open>updateLead\<close> as it is.\<close>

record HttpResponse =
  status :: nat
  body :: obj

definition patchLead :: "'s IStorage \<Rightarrow> jsstring \<Rightarrow> obj \<Rightarrow> 's \<Rightarrow> HttpResponse \<times> 's" where
  "patchLead storage ident updates s =
     (case updateLead storage ident updates s of
        (Inl e, s') \<Rightarrow>
          (\<lparr>status = 500,
            body = [utf16 ''error'' \<mapsto> Str (utf16 ''Failed to update lead''),
                    utf16 ''message'' \<mapsto> Str (case e of Error m \<Rightarrow> m
                                                    | NonError \<Rightarrow> utf16 ''Unknown error'')]\<rparr>, s')
      | (Inr None, s') \<Rightarrow>
          (\<lparr>status = 404, body = [utf16 ''error'' \<mapsto> Str (utf16 ''Lead not found'')]\<rparr>, s')
      | (Inr (Some lead), s') \<Rightarrow> (\<lparr>status = 200, body = lead\<rparr>, s'))"

section \<open>Process state\<close>

text \<open>
  The transport handle \<open>sock\<close> is known by what its calls answer: \<open>sendMessage jid text\<close> is
  the rejection of the send, if any, and \<open>requestPairingCode number\<close> the code or the
  rejection. Every call made on the handle is appended to \<open>sockCalls\<close>.
\<close>

record Sock =
  sendMessage :: "jsstring \<Rightarrow> jsstring \<Rightarrow> thrown option"
  requestPairingCode :: "jsstring \<Rightarrow> thrown + jsstring"

datatype sockCall = SendMessage jsstring jsstring | RequestPairingCode jsstring

text \<open>A log entry keeps the message of a \<open>logger\<close> call and, for \<open>logger.error\<close>, the value
  logged with it; the object that \<open>logger.info\<close> prints after \<open>Connection closed due to\<close>
  is not kept.\<close>

datatype logEntry = LogInfo jsstring | LogError jsstring thrown

datatype consoleOut = ConsoleLog jsstring | QrcodeGenerate jsstring

datatype callback = CallStart

text \<open>
  \<open>userStates\<close> is a \<open>Map\<close> from identities to session objects. It holds references: the
  handlers mutate the object they are given, and a mutation of an object that is in the
  map is visible through the map at once. So the session objects live in \<open>heap\<close>,
  \<open>userStates\<close> maps an identity to an address, and \<open>nextRef\<close> is the next free address.
  \<open>timers\<close> are the pending \<open>setTimeout\<close> calls, with their delay in milliseconds.
\<close>

record 's World =
  userStates :: "jsstring \<rightharpoonup> nat"
  heap :: "nat \<Rightarrow> BotState"
  nextRef :: nat
  store :: 's
  sockCalls :: "sockCall list"
  logs :: "logEntry list"
  console :: "consoleOut list"
  timers :: "(nat \<times> callback) list"

section \<open>Conversation engine: inbound messages\<close>

record MessageKey =
  remoteJid :: jsstring
  fromMe :: bool

record ExtendedTextMessage =
  ext_text :: "jsstring option"

record MessageContent =
  conversation :: "jsstring option"
  extendedTextMessage :: "ExtendedTextMessage option"

record WAMessage =
  key :: MessageKey
  message :: "MessageContent option"

text \<open>\<open>a || b\<close> on strings that may be \<open>undefined\<close>.\<close>

definition or_str :: "jsstring option \<Rightarrow> jsstring \<Rightarrow> jsstring" where
  "or_str a b = (case a of Some s \<Rightarrow> if s \<noteq> [] then s else b | None \<Rightarrow> b)"

definition extractText :: "WAMessage \<Rightarrow> jsstring" where
  "extractText m =
     or_str (Option.bind (message m) conversation)
       (or_str (Option.bind (Option.bind (message m) extendedTextMessage) ext_text) [])"

definition freshState :: BotState where
  "freshState = \<lparr>currentMenu = utf16 ''main'', leadFormStep = 0, leadData = Map.empty\<rparr>"

text \<open>
  The outcome of \<open>handleMessage\<close> is \<open>None\<close> when its promise resolves and \<open>Some e\<close> when it
  rejects with \<open>e\<close>. The handle is \<open>None\<close> when \<open>sock\<close> is \<open>undefined\<close>; the call on it then
  throws.
\<close>

definition handleMessage ::
  "(jsstring \<Rightarrow> jsstring) \<Rightarrow> 's IStorage \<Rightarrow> Sock option \<Rightarrow> WAMessage \<Rightarrow> 's World
     \<Rightarrow> thrown option \<times> 's World" where
  "handleMessage toLowerCase storage sock msg w =
     (let phoneNumber = remoteJid (key msg);
          messageText = extractText msg
      in
      if messageText = [] then (None, w)
      else
        (let (received, s1) = createBotMessage storage
                [utf16 ''phoneNumber'' \<mapsto> Str phoneNumber,
                 utf16 ''messageType'' \<mapsto> Str (utf16 ''received''),
                 utf16 ''content'' \<mapsto> Str messageText,
                 utf16 ''isBot'' \<mapsto> Num 0] (store w);
             w1 = w\<lparr>store := s1\<rparr>
         in case received of
              Inl e \<Rightarrow> (Some e, w1)
            | Inr _ \<Rightarrow>
               (let (r, w2) =
                      (case userStates w1 phoneNumber of
                         Some r \<Rightarrow> (r, w1)
                       | None \<Rightarrow> (nextRef w1,
                                  w1\<lparr>heap := (heap w1)(nextRef w1 := freshState),
                                     nextRef := Suc (nextRef w1)\<rparr>));
                    userState = heap w2 r;
                    (response, userState', s2) =
                      (if currentMenu userState = utf16 ''lead_form''
                       then handleLeadForm toLowerCase storage phoneNumber messageText userState
                              (store w2)
                       else (let (reply, u) = handleMainMenu toLowerCase phoneNumber messageText
                                                userState
                             in (Inr reply, u, store w2)));
                    w3 = w2\<lparr>heap := (heap w2)(r := userState'), store := s2\<rparr>
                in case response of
                     Inl e \<Rightarrow> (Some e, w3)
                   | Inr responseMessage \<Rightarrow>
                      (let w4 = w3\<lparr>userStates := (userStates w3)(phoneNumber \<mapsto> r)\<rparr> in
                       if responseMessage \<noteq> [] then
                         (case sock of
                            None \<Rightarrow>
                              (Some (Error (utf16 ''Cannot read properties of undefined (reading ''
                                  @ [0x27] @ utf16 ''sendMessage'' @ [0x27] @ utf16 '')'')), w4)
                          | Some k \<Rightarrow>
                             (let w5 = w4\<lparr>sockCalls := sockCalls w4
                                            @ [SendMessage phoneNumber responseMessage]\<rparr>
                              in case sendMessage k phoneNumber responseMessage of
                                   Some e \<Rightarrow> (Some e, w5)
                                 | None \<Rightarrow>
                                    (let (sent, s3) = createBotMessage storage
                                            [utf16 ''phoneNumber'' \<mapsto> Str phoneNumber,
                                             utf16 ''messageType'' \<mapsto> Str (utf16 ''sent''),
                                             utf16 ''content'' \<mapsto> Str responseMessage,
                                             utf16 ''isBot'' \<mapsto> Num 1] (store w5);
                                         w6 = w5\<lparr>store := s3\<rparr>
                                     in case sent of
                                          Inl e \<Rightarrow> (Some e, w6)
                                        | Inr _ \<Rightarrow> (None, w6))))
                       else (None, w4)))))"

text \<open>A run of inbound messages, one call of \<open>handleMessage\<close> each, up to the first
  rejection.\<close>

fun handleMessage_seq ::
  "(jsstring \<Rightarrow> jsstring) \<Rightarrow> 's IStorage \<Rightarrow> Sock option \<Rightarrow> WAMessage list \<Rightarrow> 's World
     \<Rightarrow> thrown option \<times> 's World" where
  "handleMessage_seq toLowerCase storage sock [] w = (None, w)"
| "handleMessage_seq toLowerCase storage sock (m # ms) w =
     (case handleMessage toLowerCase storage sock m w of
        (None, w') \<Rightarrow> handleMessage_seq toLowerCase storage sock ms w'
      | (Some e, w') \<Rightarrow> (Some e, w'))"

section \<open>Connection manager\<close>

text \<open>
  The source holds two copies of the class \<open>WhatsAppBot\<close>. The model follows the second
  one, which sets \<open>isConnected\<close> on every close, picks the reconnect delay by the
  disconnect cause and checks the phone number before it asks for a pairing code.
\<close>

record WhatsAppBot =
  sock :: "Sock option"
  qrCodeGenerated :: bool
  isConnected :: bool

text \<open>The \<open>DisconnectReason\<close> status codes belong to the transport library and are a
  parameter; \<open>baileysDisconnectReason\<close> holds the values the library gives them.\<close>

record DisconnectReason =
  loggedOut :: int
  restartRequired :: int
  timedOut :: int
  connectionLost :: int

definition baileysDisconnectReason :: DisconnectReason where
  "baileysDisconnectReason =
     \<lparr>loggedOut = 401, restartRequired = 515, timedOut = 408, connectionLost = 408\<rparr>"

record BoomOutput =
  statusCode :: "int option"

record Boom =
  boom_output :: "BoomOutput option"

record LastDisconnect =
  error :: "Boom option"

record ConnectionUpdate =
  connection :: "jsstring option"
  lastDisconnect :: "LastDisconnect option"
  qr :: "jsstring option"

text \<open>\<open>(lastDisconnect?.error as Boom)?.output?.statusCode\<close>\<close>

definition disconnectStatusCode :: "ConnectionUpdate \<Rightarrow> int option" where
  "disconnectStatusCode update =
     Option.bind (Option.bind (Option.bind (lastDisconnect update) error) boom_output) statusCode"

definition logInfo :: "jsstring \<Rightarrow> 's World \<Rightarrow> 's World" where
  "logInfo m w = w\<lparr>logs := logs w @ [LogInfo m]\<rparr>"

definition logError :: "jsstring \<Rightarrow> thrown \<Rightarrow> 's World \<Rightarrow> 's World" where
  "logError m e w = w\<lparr>logs := logs w @ [LogError m e]\<rparr>"

definition setTimeout :: "callback \<Rightarrow> nat \<Rightarrow> 's World \<Rightarrow> 's World" where
  "setTimeout f ms w = w\<lparr>timers := timers w @ [(ms, f)]\<rparr>"

definition handleConnectionUpdate ::
  "DisconnectReason \<Rightarrow> ConnectionUpdate \<Rightarrow> WhatsAppBot \<Rightarrow> 's World \<Rightarrow> WhatsAppBot \<times> 's World" where
  "handleConnectionUpdate reason update self w =
     (let (bot1, w1) =
            (case qr update of
               Some q \<Rightarrow>
                 if q \<noteq> [] \<and> \<not> qrCodeGenerated self then
                   (self\<lparr>qrCodeGenerated := True\<rparr>,
                    w\<lparr>console := console w @
                        [ConsoleLog ([0xA] @
                           [0xF0, 0x178, 0x201C, 0xB1] @ utf16 '' Scan this QR code with WhatsApp:''),
                         QrcodeGenerate q,
                         ConsoleLog ([0xA] @
                           utf16 ''Or use pairing code by calling /api/whatsapp/pair-code'')]\<rparr>)
                 else (self, w)
             | None \<Rightarrow> (self, w))
      in
      if connection update = Some (utf16 ''close'') then
        (let bot2 = bot1\<lparr>isConnected := False\<rparr>;
             code = disconnectStatusCode update;
             w2 = logInfo (utf16 ''Connection closed due to'') w1
         in
         if code = Some (loggedOut reason) then
           (bot2\<lparr>qrCodeGenerated := False\<rparr>,
            logInfo (utf16 ''Device logged out, please restart to reconnect'') w2)
         else if code = Some (restartRequired reason) then
           (bot2, setTimeout CallStart 2000
                    (logInfo (utf16 ''Restart required, restarting...'') w2))
         else if code = Some (timedOut reason) \<or> code = Some (connectionLost reason) then
           (bot2, setTimeout CallStart 5000
                    (logInfo (utf16 ''Connection timed out or lost, attempting reconnect...'') w2))
         else
           (bot2, setTimeout CallStart 3000
                    (logInfo (utf16 ''Reconnecting in 3 seconds...'') w2)))
      else if connection update = Some (utf16 ''open'') then
        (bot1\<lparr>isConnected := True, qrCodeGenerated := False\<rparr>,
         logInfo (utf16 ''WhatsApp bot connected successfully! '' @ [0xF0, 0x178, 0x17D, 0x2030]) w1)
      else if connection update = Some (utf16 ''connecting'') then
        (bot1, logInfo (utf16 ''Connecting to WhatsApp...'') w1)
      else (bot1, w1))"

text \<open>
  \<open>handleMessages\<close> is the observer of the transport's inbound batches. Its outcome is
  what it hands back to the transport's event loop: \<open>None\<close> when its promise resolves.
\<close>

definition handleMessages ::
  "(jsstring \<Rightarrow> jsstring) \<Rightarrow> 's IStorage \<Rightarrow> WAMessage list \<Rightarrow> WhatsAppBot \<Rightarrow> 's World
     \<Rightarrow> thrown option \<times> 's World" where
  "handleMessages toLowerCase storage messages self w =
     (case messages of
        [] \<Rightarrow> (None, w)
      | msg # rest \<Rightarrow>
          if fromMe (key msg) then (None, w)
          else
            (case handleMessage toLowerCase storage (sock self) msg w of
               (None, w') \<Rightarrow> (None, w')
             | (Some e, w') \<Rightarrow> (None, logError (utf16 ''Error handling message:'') e w')))"

definition generatePairingCode ::
  "jsstring \<Rightarrow> WhatsAppBot \<Rightarrow> 's World \<Rightarrow> (thrown + jsstring) \<times> 's World" where
  "generatePairingCode phoneNumber self w =
     (case sock self of
        None \<Rightarrow> (Inl (Error (utf16 ''WhatsApp bot not initialized'')), w)
      | Some k \<Rightarrow>
          if \<not> isConnected self then
            (Inl (Error (utf16
               ''WhatsApp bot not connected. Please wait for connection or scan QR code.'')), w)
          else
            (let cleanPhoneNumber = stripNonDigits phoneNumber;
                 (attempt, w1) =
                   (if length cleanPhoneNumber < 10 \<or> length cleanPhoneNumber > 15 then
                      (Inl (Error (utf16 ''Invalid phone number format'')), w)
                    else
                      (let w' = w\<lparr>sockCalls := sockCalls w @ [RequestPairingCode cleanPhoneNumber]\<rparr>
                       in case requestPairingCode k cleanPhoneNumber of
                            Inl e \<Rightarrow> (Inl e, w')
                          | Inr pairingCode \<Rightarrow>
                              (Inr pairingCode,
                               logInfo (utf16 ''Pairing code generated for '' @ cleanPhoneNumber
                                          @ utf16 '': '' @ pairingCode) w')))
             in case attempt of
                  Inr pairingCode \<Rightarrow> (Inr pairingCode, w1)
                | Inl e \<Rightarrow>
                    (Inl (Error (utf16 ''Failed to generate pairing code: '' @
                            (case e of Error m \<Rightarrow> m | NonError \<Rightarrow> utf16 ''Unknown error''))),
                     logError (utf16 ''Error generating pairing code:'') e w1)))"

section \<open>Notions used to state the properties\<close>

text \<open>All \<open>case\<close> labels of \<open>handleMainMenu\<close>, and all markers of its \<open>default\<close> branch.\<close>

definition menuLabels :: "jsstring list" where
  "menuLabels = customLabels @ productsLabels @ aiLabels @ webLabels @ blockchainLabels @
     vendraLabels @ portfolioLabels @ quoteLabels @ contactLabels @ navigationLabels"

definition fallbackMarkers :: "jsstring list" where
  "fallbackMarkers = quoteMarkers @ aiMarkers @ webMarkers @ blockchainMarkers @ vendraMarkers @
     portfolioMarkers @ contactMarkers @ productsMarkers"

definition exitKeywords :: "jsstring list" where
  "exitKeywords = [utf16 ''menu'', utf16 ''cancel'', utf16 ''exit'', utf16 ''back'']"

text \<open>The session of an identity, as \<open>handleMessage\<close> resolves it:
  \<open>userStates.get(phoneNumber) || { currentMenu: 'main', leadFormStep: 0, leadData: {} }\<close>.\<close>

definition sessionOf :: "'s World \<Rightarrow> jsstring \<Rightarrow> BotState" where
  "sessionOf w phoneNumber =
     (case userStates w phoneNumber of Some r \<Rightarrow> heap w r | None \<Rightarrow> freshState)"

text \<open>A repository whose \<open>createBotMessage\<close> never rejects, as that of \<open>MemStorage\<close>.\<close>

definition acceptsMessages :: "'s IStorage \<Rightarrow> bool" where
  "acceptsMessages storage \<longleftrightarrow>
     (\<forall>m s. \<exists>ob s'. createBotMessage storage m s = (Inr ob, s'))"

text \<open>The data of the concrete runs: a process that has handled nothing yet, a runtime,
  a transport that delivers every send, one whose sends fail, a repository whose
  \<open>createLead\<close> rejects, an inbound text message, and a session in the lead form.\<close>

definition emptyWorld :: "'s \<Rightarrow> 's World" where
  "emptyWorld s =
     \<lparr>userStates = Map.empty, heap = (\<lambda>r. freshState), nextRef = 0, store = s,
      sockCalls = [], logs = [], console = [], timers = []\<rparr>"

definition exampleHost :: Host where
  "exampleHost = \<lparr>randomUUID = (\<lambda>n. utf16 ''uuid-'' @ digits n), dateNow = (\<lambda>n. 1000 + int n)\<rparr>"

definition reliableSock :: Sock where
  "reliableSock =
     \<lparr>sendMessage = (\<lambda>jid body. None), requestPairingCode = (\<lambda>number. Inr (utf16 ''ABCD1234''))\<rparr>"

definition brokenSock :: Sock where
  "brokenSock =
     \<lparr>sendMessage = (\<lambda>jid body. Some (Error (utf16 ''Connection Closed''))),
      requestPairingCode = (\<lambda>number. Inl (Error (utf16 ''Connection Closed'')))\<rparr>"

definition rejectingStorage :: "MemStorage IStorage" where
  "rejectingStorage =
     (memStorage exampleHost)
       \<lparr>createLead := (\<lambda>insertLead st. (Inl (Error (utf16 ''connection refused'')), st))\<rparr>"

definition textMessage :: "jsstring \<Rightarrow> jsstring \<Rightarrow> WAMessage" where
  "textMessage jid s =
     \<lparr>key = \<lparr>remoteJid = jid, fromMe = False\<rparr>,
      message = Some \<lparr>conversation = Some s, extendedTextMessage = None\<rparr>\<rparr>"

definition exampleJid :: jsstring where
  "exampleJid = utf16 ''2348107516059@s.whatsapp.net''"

definition formState :: "nat \<Rightarrow> obj \<Rightarrow> BotState" where
  "formState n draft = \<lparr>currentMenu = utf16 ''lead_form'', leadFormStep = n, leadData = draft\<rparr>"

definition formWorld :: "nat \<Rightarrow> obj \<Rightarrow> MemStorage World" where
  "formWorld n draft =
     (emptyWorld MemStorage_new)
       \<lparr>userStates := [exampleJid \<mapsto> 0], heap := (\<lambda>r. freshState)(0 := formState n draft),
        nextRef := 1\<rparr>"

text \<open>The objects that \<open>handleMessage\<close> and \<open>handleLeadForm\<close> hand to the repository.\<close>

definition receivedEntry :: "jsstring \<Rightarrow> jsstring \<Rightarrow> obj" where
  "receivedEntry phoneNumber messageText =
     [utf16 ''phoneNumber'' \<mapsto> Str phoneNumber,
      utf16 ''messageType'' \<mapsto> Str (utf16 ''received''),
      utf16 ''content'' \<mapsto> Str messageText,
      utf16 ''isBot'' \<mapsto> Num 0]"

definition insertLeadOf :: "jsstring \<Rightarrow> obj \<Rightarrow> obj" where
  "insertLeadOf phoneNumber draft =
     [utf16 ''phoneNumber'' \<mapsto> Str phoneNumber,
      utf16 ''name'' \<mapsto> getProp draft (utf16 ''name''),
      utf16 ''projectType'' \<mapsto> getProp draft (utf16 ''projectType''),
      utf16 ''budget'' \<mapsto> getProp draft (utf16 ''budget''),
      utf16 ''timeline'' \<mapsto> getProp draft (utf16 ''timeline''),
      utf16 ''description'' \<mapsto> getProp draft (utf16 ''description''),
      utf16 ''status'' \<mapsto> Str (utf16 ''new'')]"

definition closeUpdate :: "int \<Rightarrow> ConnectionUpdate" where
  "closeUpdate c =
     \<lparr>connection = Some (utf16 ''close''),
      lastDisconnect = Some \<lparr>error = Some \<lparr>boom_output = Some \<lparr>statusCode = Some c\<rparr>\<rparr>\<rparr>,
      qr = None\<rparr>"

definition connectedBot :: "Sock \<Rightarrow> WhatsAppBot" where
  "connectedBot k = \<lparr>sock = Some k, qrCodeGenerated = True, isConnected = True\<rparr>"

definition adaLead :: obj where
  "adaLead =
     [utf16 ''phoneNumber'' \<mapsto> Str exampleJid,
      utf16 ''name'' \<mapsto> Str (utf16 ''Ada''),
      utf16 ''projectType'' \<mapsto> Str (utf16 ''1''),
      utf16 ''budget'' \<mapsto> Str ([0x20A6] @ utf16 ''500K - '' @ [0x20A6] @ utf16 ''1M''),
      utf16 ''timeline'' \<mapsto> Str (utf16 ''3 weeks''),
      utf16 ''description'' \<mapsto> Str (utf16 ''build me an app''),
      utf16 ''status'' \<mapsto> Str (utf16 ''new'')]"

definition storeWithAda :: MemStorage where
  "storeWithAda = snd (MemStorage_createLead exampleHost adaLead MemStorage_new)"

definition exampleDraft :: obj where
  "exampleDraft =
     [utf16 ''projectType'' \<mapsto> Str (utf16 ''1''),
      utf16 ''budget'' \<mapsto> Str ([0x20A6] @ utf16 ''500K - '' @ [0x20A6] @ utf16 ''1M''),
      utf16 ''timeline'' \<mapsto> Str (utf16 ''3 weeks''),
      utf16 ''description'' \<mapsto> Str (utf16 ''build me an app'')]"

section \<open>Evaluation and basic facts\<close>

lemma utf16_Nil [simp]: "utf16 [] = []"
  by (simp add: utf16_def)

lemma utf16_Cons [simp]: "utf16 (c # cs) = of_char c # utf16 cs"
  by (simp add: utf16_def)

lemma reply_nonempty [simp]:
  "getMainMenu \<noteq> []" "getCustomDevelopmentInfo \<noteq> []" "getProductsInfo \<noteq> []"
  "getAIInfo \<noteq> []" "getWebDevInfo \<noteq> []" "getBlockchainInfo \<noteq> []" "getVendraInfo \<noteq> []"
  "getPortfolioInfo \<noteq> []" "getQuoteInfo_text \<noteq> []" "getContactInfo \<noteq> []"
  "budgetPrompt \<noteq> []" "timelinePrompt \<noteq> []" "descriptionPrompt \<noteq> []" "namePrompt \<noteq> []"
  "summaryMessage n p b t \<noteq> []"
  by (simp_all add: getMainMenu_def getCustomDevelopmentInfo_def getProductsInfo_def
        getAIInfo_def getWebDevInfo_def getBlockchainInfo_def getVendraInfo_def
        getPortfolioInfo_def getQuoteInfo_text_def getContactInfo_def budgetPrompt_def
        timelinePrompt_def descriptionPrompt_def namePrompt_def summaryMessage_def)

lemmas label_defs =
  customLabels_def productsLabels_def aiLabels_def webLabels_def blockchainLabels_def
  vendraLabels_def portfolioLabels_def quoteLabels_def contactLabels_def navigationLabels_def

lemmas marker_defs =
  quoteMarkers_def aiMarkers_def webMarkers_def blockchainMarkers_def vendraMarkers_def
  portfolioMarkers_def contactMarkers_def productsMarkers_def

lemmas string_defs = trim_def isWhiteSpace_def toLowerCaseASCII_def exitKeywords_def

lemmas object_defs =
  budgetOptions_def timelineOptions_def getProp_def or_else_def objectPrototypeKeys_def

lemmas storage_defs =
  memStorage_def MemStorage_new_def MemStorage_createBotMessage_def MemStorage_createLead_def
  MemStorage_updateLead_def MemStorage_getLeads_def exampleHost_def

lemmas message_defs =
  handleMessage_def Let_def textMessage_def extractText_def or_str_def emptyWorld_def
  exampleJid_def freshState_def sessionOf_def reliableSock_def brokenSock_def

lemma memStorage_accepts: "acceptsMessages (memStorage h)"
  by (simp add: acceptsMessages_def memStorage_def MemStorage_createBotMessage_def Let_def)

lemma acceptsMessagesE:
  assumes "acceptsMessages storage"
  obtains ob s' where "createBotMessage storage m s = (Inr ob, s')"
  using assms unfolding acceptsMessages_def by blast

lemma extractText_textMessage [simp]: "extractText (textMessage jid s) = s"
  by (simp add: textMessage_def extractText_def or_str_def)

lemma key_textMessage [simp]:
  "remoteJid (key (textMessage jid s)) = jid" "fromMe (key (textMessage jid s)) = False"
  by (simp_all add: textMessage_def)

lemma sessionOf_emptyWorld [simp]: "sessionOf (emptyWorld s) jid = freshState"
  by (simp add: sessionOf_def emptyWorld_def)

lemma emptyWorld_simps [simp]:
  "sockCalls (emptyWorld s) = []" "logs (emptyWorld s) = []" "store (emptyWorld s) = s"
  "userStates (emptyWorld s) = Map.empty" "timers (emptyWorld s) = []"
  by (simp_all add: emptyWorld_def)

lemma rejectingStorage_accepts: "acceptsMessages rejectingStorage"
  by (simp add: acceptsMessages_def rejectingStorage_def memStorage_def
        MemStorage_createBotMessage_def Let_def)

section \<open>The menu machine\<close>

lemma handleMainMenu_default:
  assumes "toLowerCase (trim messageText) \<notin> set menuLabels"
      and "\<not> list_ex (str_includes (toLowerCase (trim messageText))) fallbackMarkers"
  shows "handleMainMenu toLowerCase phoneNumber messageText userState = (getMainMenu, userState)"
  using assms unfolding handleMainMenu_def menuLabels_def fallbackMarkers_def Let_def
  by (simp only: set_append Un_iff list_ex_append de_Morgan_disj if_False split: if_splits)

text \<open>
  C9. In a session that is not in the lead form, a message whose lower-cased, trimmed text
  is none of the \<open>case\<close> labels (the codes 1 to 9, their aliases, the navigation keywords)
  and contains none of the fallback markers gets the root menu text: \<open>handleMainMenu\<close>
  returns it and leaves the session as it is, and \<open>handleMessage\<close> sends exactly that text
  to the sender, resolving whenever the transport delivers it.
\<close>

theorem unrecognized_input_root_menu:
  assumes nonempty: "extractText msg \<noteq> []"
      and main: "currentMenu (sessionOf w (remoteJid (key msg))) = utf16 ''main''"
      and nolabel: "toLowerCase (trim (extractText msg)) \<notin> set menuLabels"
      and nomarker:
        "\<not> list_ex (str_includes (toLowerCase (trim (extractText msg)))) fallbackMarkers"
      and acc: "acceptsMessages storage"
  shows "handleMainMenu toLowerCase (remoteJid (key msg)) (extractText msg)
             (sessionOf w (remoteJid (key msg)))
           = (getMainMenu, sessionOf w (remoteJid (key msg))) \<and>
         (case handleMessage toLowerCase storage (Some k) msg w of
            (outcome, w') \<Rightarrow>
              sockCalls w' = sockCalls w @ [SendMessage (remoteJid (key msg)) getMainMenu] \<and>
              sessionOf w' (remoteJid (key msg)) = sessionOf w (remoteJid (key msg)) \<and>
              (sendMessage k (remoteJid (key msg)) getMainMenu = None \<longrightarrow> outcome = None))"
proof -
  let ?p = "remoteJid (key msg)"
  let ?t = "extractText msg"
  have menu: "\<And>u. handleMainMenu toLowerCase ?p ?t u = (getMainMenu, u)"
    using nolabel nomarker by (rule handleMainMenu_default)
  obtain ob1 s1 where rcv:
    "createBotMessage storage
       [utf16 ''phoneNumber'' \<mapsto> Str ?p, utf16 ''messageType'' \<mapsto> Str (utf16 ''received''),
        utf16 ''content'' \<mapsto> Str ?t, utf16 ''isBot'' \<mapsto> Num 0] (store w) = (Inr ob1, s1)"
    using acc by (rule acceptsMessagesE)
  obtain ob2 s2 where snt:
    "createBotMessage storage
       [utf16 ''phoneNumber'' \<mapsto> Str ?p, utf16 ''messageType'' \<mapsto> Str (utf16 ''sent''),
        utf16 ''content'' \<mapsto> Str getMainMenu, utf16 ''isBot'' \<mapsto> Num 1] s1 = (Inr ob2, s2)"
    using acc by (rule acceptsMessagesE)
  have notform: "currentMenu (sessionOf w ?p) \<noteq> utf16 ''lead_form''"
    using main by simp
  have fresh: "currentMenu freshState \<noteq> utf16 ''lead_form''"
    by (simp add: freshState_def)
  show ?thesis
  proof (cases "userStates w ?p")
    case None
    then show ?thesis
      using nonempty rcv snt fresh menu
      by (simp add: handleMessage_def Let_def sessionOf_def del: utf16_Cons split: option.splits)
  next
    case (Some r)
    then show ?thesis
      using nonempty rcv snt notform menu
      by (simp add: handleMessage_def Let_def sessionOf_def del: utf16_Cons split: option.splits)
  qed
qed

theorem unrecognized_input_root_menu_witness:
  "extractText (textMessage exampleJid (utf16 ''  Hello there!'')) \<noteq> [] \<and>
   currentMenu (sessionOf (emptyWorld MemStorage_new) exampleJid) = utf16 ''main'' \<and>
   toLowerCaseASCII (trim (utf16 ''  Hello there!'')) \<notin> set menuLabels \<and>
   \<not> list_ex (str_includes (toLowerCaseASCII (trim (utf16 ''  Hello there!'')))) fallbackMarkers \<and>
   acceptsMessages (memStorage exampleHost) \<and>
   handleMainMenu toLowerCaseASCII exampleJid (utf16 ''  Hello there!'') freshState
     = (getMainMenu, freshState) \<and>
   sockCalls (snd (handleMessage toLowerCaseASCII (memStorage exampleHost) (Some reliableSock)
       (textMessage exampleJid (utf16 ''  Hello there!'')) (emptyWorld MemStorage_new)))
     = [SendMessage exampleJid getMainMenu] \<and>
   fst (handleMessage toLowerCaseASCII (memStorage exampleHost) (Some reliableSock)
       (textMessage exampleJid (utf16 ''  Hello there!'')) (emptyWorld MemStorage_new)) = None"
proof -
  let ?m = "textMessage exampleJid (utf16 ''  Hello there!'')"
  let ?w = "emptyWorld MemStorage_new :: MemStorage World"
  have h1: "extractText ?m \<noteq> []"
    by simp
  have h2: "currentMenu (sessionOf ?w (remoteJid (key ?m))) = utf16 ''main''"
    by (simp add: freshState_def)
  have h3: "toLowerCaseASCII (trim (extractText ?m)) \<notin> set menuLabels"
    by (simp add: menuLabels_def label_defs string_defs)
  have h4: "\<not> list_ex (str_includes (toLowerCaseASCII (trim (extractText ?m)))) fallbackMarkers"
    by (simp add: fallbackMarkers_def marker_defs string_defs)
  have h5: "acceptsMessages (memStorage exampleHost)"
    by (rule memStorage_accepts)
  from unrecognized_input_root_menu [where toLowerCase = toLowerCaseASCII and msg = ?m
      and w = ?w and storage = "memStorage exampleHost" and k = reliableSock, OF h1 h2 h3 h4 h5]
  show ?thesis
    using h1 h2 h3 h4 h5
    by (simp add: reliableSock_def case_prod_beta)
qed

section \<open>The lead form\<close>

lemma handleLeadForm_exit:
  assumes "toLowerCase (trim messageText) \<in> set exitKeywords"
  shows "handleLeadForm toLowerCase storage phoneNumber messageText userState s =
           (Inr getMainMenu,
            \<lparr>currentMenu = utf16 ''main'', leadFormStep = 0, leadData = Map.empty\<rparr>, s)"
  using assms unfolding handleLeadForm_def Let_def exitKeywords_def
  by (auto simp del: utf16_Cons)

lemma lead_form_session_present:
  assumes "currentMenu (sessionOf w p) = utf16 ''lead_form''"
  obtains r where "userStates w p = Some r" and "heap w r = sessionOf w p"
  using assms by (cases "userStates w p") (simp_all add: sessionOf_def freshState_def)

text \<open>
  C3. In a session that is in the lead form, at whatever step, a message whose trimmed,
  lower-cased text is \<open>menu\<close>, \<open>cancel\<close>, \<open>exit\<close> or \<open>back\<close> resets the session to
  \<open>main\<close>, step 0 and the empty draft and is answered with the root menu text.
  \<open>handleLeadForm\<close> decides this before it looks at the step: it returns the repository
  as it got it and stores no field of the draft.
\<close>

theorem exit_keyword_resets_lead_form:
  assumes nonempty: "extractText msg \<noteq> []"
      and inform: "currentMenu (sessionOf w (remoteJid (key msg))) = utf16 ''lead_form''"
      and exit: "toLowerCase (trim (extractText msg)) \<in> set exitKeywords"
      and acc: "acceptsMessages storage"
  shows "handleLeadForm toLowerCase storage (remoteJid (key msg)) (extractText msg)
             (sessionOf w (remoteJid (key msg))) s
           = (Inr getMainMenu,
              \<lparr>currentMenu = utf16 ''main'', leadFormStep = 0, leadData = Map.empty\<rparr>, s) \<and>
         (case handleMessage toLowerCase storage (Some k) msg w of
            (outcome, w') \<Rightarrow>
              sockCalls w' = sockCalls w @ [SendMessage (remoteJid (key msg)) getMainMenu] \<and>
              sessionOf w' (remoteJid (key msg))
                = \<lparr>currentMenu = utf16 ''main'', leadFormStep = 0, leadData = Map.empty\<rparr> \<and>
              (sendMessage k (remoteJid (key msg)) getMainMenu = None \<longrightarrow> outcome = None))"
proof -
  let ?p = "remoteJid (key msg)"
  let ?t = "extractText msg"
  have form: "\<And>u s. handleLeadForm toLowerCase storage ?p ?t u s
      = (Inr getMainMenu, \<lparr>currentMenu = utf16 ''main'', leadFormStep = 0, leadData = Map.empty\<rparr>, s)"
    using exit by (rule handleLeadForm_exit)
  obtain r where present: "userStates w ?p = Some r" and obj: "heap w r = sessionOf w ?p"
    using inform by (rule lead_form_session_present)
  obtain ob1 s1 where rcv:
    "createBotMessage storage
       [utf16 ''phoneNumber'' \<mapsto> Str ?p, utf16 ''messageType'' \<mapsto> Str (utf16 ''received''),
        utf16 ''content'' \<mapsto> Str ?t, utf16 ''isBot'' \<mapsto> Num 0] (store w) = (Inr ob1, s1)"
    using acc by (rule acceptsMessagesE)
  obtain ob2 s2 where snt:
    "createBotMessage storage
       [utf16 ''phoneNumber'' \<mapsto> Str ?p, utf16 ''messageType'' \<mapsto> Str (utf16 ''sent''),
        utf16 ''content'' \<mapsto> Str getMainMenu, utf16 ''isBot'' \<mapsto> Num 1] s1 = (Inr ob2, s2)"
    using acc by (rule acceptsMessagesE)
  have menu: "currentMenu (heap w r) = utf16 ''lead_form''"
    using inform obj by simp
  have "case handleMessage toLowerCase storage (Some k) msg w of
            (outcome, w') \<Rightarrow>
              sockCalls w' = sockCalls w @ [SendMessage ?p getMainMenu] \<and>
              sessionOf w' ?p
                = \<lparr>currentMenu = utf16 ''main'', leadFormStep = 0, leadData = Map.empty\<rparr> \<and>
              (sendMessage k ?p getMainMenu = None \<longrightarrow> outcome = None)"
    using nonempty present rcv snt menu form
    by (simp add: handleMessage_def Let_def sessionOf_def del: utf16_Cons split: option.splits)
  with form show ?thesis by simp
qed

theorem exit_keyword_resets_lead_form_witness:
  "extractText (textMessage exampleJid (utf16 '' Cancel '')) \<noteq> [] \<and>
   currentMenu (sessionOf (formWorld 3 [utf16 ''projectType'' \<mapsto> Str (utf16 ''1'')]) exampleJid)
     = utf16 ''lead_form'' \<and>
   toLowerCaseASCII (trim (utf16 '' Cancel '')) \<in> set exitKeywords \<and>
   acceptsMessages (memStorage exampleHost) \<and>
   sockCalls (snd (handleMessage toLowerCaseASCII (memStorage exampleHost) (Some reliableSock)
       (textMessage exampleJid (utf16 '' Cancel ''))
       (formWorld 3 [utf16 ''projectType'' \<mapsto> Str (utf16 ''1'')])))
     = [SendMessage exampleJid getMainMenu] \<and>
   sessionOf (snd (handleMessage toLowerCaseASCII (memStorage exampleHost) (Some reliableSock)
       (textMessage exampleJid (utf16 '' Cancel ''))
       (formWorld 3 [utf16 ''projectType'' \<mapsto> Str (utf16 ''1'')]))) exampleJid
     = \<lparr>currentMenu = utf16 ''main'', leadFormStep = 0, leadData = Map.empty\<rparr> \<and>
   fst (handleMessage toLowerCaseASCII (memStorage exampleHost) (Some reliableSock)
       (textMessage exampleJid (utf16 '' Cancel ''))
       (formWorld 3 [utf16 ''projectType'' \<mapsto> Str (utf16 ''1'')])) = None"
proof -
  let ?m = "textMessage exampleJid (utf16 '' Cancel '')"
  let ?w = "formWorld 3 [utf16 ''projectType'' \<mapsto> Str (utf16 ''1'')]"
  have h1: "extractText ?m \<noteq> []"
    by simp
  have h2: "currentMenu (sessionOf ?w (remoteJid (key ?m))) = utf16 ''lead_form''"
    by (simp add: sessionOf_def formWorld_def formState_def)
  have h3: "toLowerCaseASCII (trim (extractText ?m)) \<in> set exitKeywords"
    by (simp add: string_defs)
  have h4: "acceptsMessages (memStorage exampleHost)"
    by (rule memStorage_accepts)
  from exit_keyword_resets_lead_form [where toLowerCase = toLowerCaseASCII and msg = ?m
      and w = ?w and storage = "memStorage exampleHost" and k = reliableSock, OF h1 h2 h3 h4]
  show ?thesis
    using h1 h2 h3 h4
    by (simp add: reliableSock_def formWorld_def case_prod_beta)
qed

lemma handleLeadForm_budget:
  assumes "toLowerCase (trim messageText) \<notin> set exitKeywords"
      and "leadFormStep userState = 2"
  shows "handleLeadForm toLowerCase storage phoneNumber messageText userState s =
           (Inr timelinePrompt,
            userState\<lparr>leadData := (leadData userState)(utf16 ''budget'' \<mapsto>
                         or_else (getProp budgetOptions (trim messageText))
                           (Str (trim messageText))),
                       leadFormStep := 3\<rparr>, s)"
  using assms
  by (simp add: handleLeadForm_def Let_def exitKeywords_def del: utf16_Cons)

lemma handleLeadForm_timeline:
  assumes "toLowerCase (trim messageText) \<notin> set exitKeywords"
      and "leadFormStep userState = 3"
  shows "handleLeadForm toLowerCase storage phoneNumber messageText userState s =
           (Inr descriptionPrompt,
            userState\<lparr>leadData := (leadData userState)(utf16 ''timeline'' \<mapsto>
                         or_else (getProp timelineOptions (trim messageText))
                           (Str (trim messageText))),
                       leadFormStep := 4\<rparr>, s)"
  using assms
  by (simp add: handleLeadForm_def Let_def exitKeywords_def del: utf16_Cons)

text \<open>
  What steps 2 and 3 store, for the inputs that are not exit keywords: at step 2 the input
  \<open>3\<close> stores the budget label of code 3, at step 3 the input \<open>2\<close> stores
  \<open>1-3 months\<close>; an input whose trimmed text is no key of the step's table and no member
  name of \<open>Object.prototype\<close> is stored as its trimmed text; and step 2 always goes to
  step 3, step 3 to step 4.
\<close>

lemma budget_timeline_decoding:
  assumes notexit: "toLowerCase (trim messageText) \<notin> set exitKeywords"
  shows "(leadFormStep userState = 2 \<and> trim messageText = utf16 ''3'' \<longrightarrow>
            handleLeadForm toLowerCase storage phoneNumber messageText userState s =
              (Inr timelinePrompt,
               userState\<lparr>leadData := (leadData userState)(utf16 ''budget'' \<mapsto>
                            Str ([0x20A6] @ utf16 ''1M - '' @ [0x20A6] @ utf16 ''3M'')),
                          leadFormStep := 3\<rparr>, s)) \<and>
         (leadFormStep userState = 3 \<and> trim messageText = utf16 ''2'' \<longrightarrow>
            handleLeadForm toLowerCase storage phoneNumber messageText userState s =
              (Inr descriptionPrompt,
               userState\<lparr>leadData := (leadData userState)(utf16 ''timeline'' \<mapsto>
                            Str (utf16 ''1-3 months'')),
                          leadFormStep := 4\<rparr>, s)) \<and>
         (leadFormStep userState = 2 \<and> trim messageText \<notin> dom budgetOptions \<and>
          trim messageText \<notin> set objectPrototypeKeys \<longrightarrow>
            handleLeadForm toLowerCase storage phoneNumber messageText userState s =
              (Inr timelinePrompt,
               userState\<lparr>leadData := (leadData userState)(utf16 ''budget'' \<mapsto>
                            Str (trim messageText)),
                          leadFormStep := 3\<rparr>, s)) \<and>
         (leadFormStep userState = 3 \<and> trim messageText \<notin> dom timelineOptions \<and>
          trim messageText \<notin> set objectPrototypeKeys \<longrightarrow>
            handleLeadForm toLowerCase storage phoneNumber messageText userState s =
              (Inr descriptionPrompt,
               userState\<lparr>leadData := (leadData userState)(utf16 ''timeline'' \<mapsto>
                            Str (trim messageText)),
                          leadFormStep := 4\<rparr>, s)) \<and>
         (leadFormStep userState = 2 \<longrightarrow>
            leadFormStep (fst (snd (handleLeadForm toLowerCase storage phoneNumber messageText
                                      userState s))) = 3) \<and>
         (leadFormStep userState = 3 \<longrightarrow>
            leadFormStep (fst (snd (handleLeadForm toLowerCase storage phoneNumber messageText
                                      userState s))) = 4)"
proof -
  have code3: "or_else (getProp budgetOptions (utf16 ''3'')) (Str (utf16 ''3''))
                 = Str ([0x20A6] @ utf16 ''1M - '' @ [0x20A6] @ utf16 ''3M'')"
    by (simp add: object_defs)
  have code2: "or_else (getProp timelineOptions (utf16 ''2'')) (Str (utf16 ''2''))
                 = Str (utf16 ''1-3 months'')"
    by (simp add: object_defs)
  have verbatim: "or_else (getProp table x) (Str x) = Str x"
    if "x \<notin> dom table" and "x \<notin> set objectPrototypeKeys" for table x
    using that by (auto simp: getProp_def or_else_def domIff)
  show ?thesis
  proof (intro conjI impI; (elim conjE)?)
    assume "leadFormStep userState = 2" and "trim messageText = utf16 ''3''"
    then show "handleLeadForm toLowerCase storage phoneNumber messageText userState s =
              (Inr timelinePrompt,
               userState\<lparr>leadData := (leadData userState)(utf16 ''budget'' \<mapsto>
                            Str ([0x20A6] @ utf16 ''1M - '' @ [0x20A6] @ utf16 ''3M'')),
                          leadFormStep := 3\<rparr>, s)"
      using notexit code3 by (simp add: handleLeadForm_budget del: utf16_Cons)
  next
    assume "leadFormStep userState = 3" and "trim messageText = utf16 ''2''"
    then show "handleLeadForm toLowerCase storage phoneNumber messageText userState s =
              (Inr descriptionPrompt,
               userState\<lparr>leadData := (leadData userState)(utf16 ''timeline'' \<mapsto>
                            Str (utf16 ''1-3 months'')),
                          leadFormStep := 4\<rparr>, s)"
      using notexit code2 by (simp add: handleLeadForm_timeline del: utf16_Cons)
  next
    assume "leadFormStep userState = 2" and "trim messageText \<notin> dom budgetOptions"
      and "trim messageText \<notin> set objectPrototypeKeys"
    then show "handleLeadForm toLowerCase storage phoneNumber messageText userState s =
              (Inr timelinePrompt,
               userState\<lparr>leadData := (leadData userState)(utf16 ''budget'' \<mapsto>
                            Str (trim messageText)),
                          leadFormStep := 3\<rparr>, s)"
      using notexit by (simp add: handleLeadForm_budget verbatim del: utf16_Cons)
  next
    assume "leadFormStep userState = 3" and "trim messageText \<notin> dom timelineOptions"
      and "trim messageText \<notin> set objectPrototypeKeys"
    then show "handleLeadForm toLowerCase storage phoneNumber messageText userState s =
              (Inr descriptionPrompt,
               userState\<lparr>leadData := (leadData userState)(utf16 ''timeline'' \<mapsto>
                            Str (trim messageText)),
                          leadFormStep := 4\<rparr>, s)"
      using notexit by (simp add: handleLeadForm_timeline verbatim del: utf16_Cons)
  next
    assume "leadFormStep userState = 2"
    then show "leadFormStep (fst (snd (handleLeadForm toLowerCase storage phoneNumber
                 messageText userState s))) = 3"
      using notexit by (simp add: handleLeadForm_budget del: utf16_Cons)
  next
    assume "leadFormStep userState = 3"
    then show "leadFormStep (fst (snd (handleLeadForm toLowerCase storage phoneNumber
                 messageText userState s))) = 4"
      using notexit by (simp add: handleLeadForm_timeline del: utf16_Cons)
  qed
qed

lemma budget_timeline_decoding_example:
  "toLowerCaseASCII (trim (utf16 ''3'')) \<notin> set exitKeywords \<and>
   toLowerCaseASCII (trim (utf16 '' around 2 million '')) \<notin> set exitKeywords \<and>
   trim (utf16 '' around 2 million '') \<notin> dom budgetOptions \<and>
   trim (utf16 '' around 2 million '') \<notin> set objectPrototypeKeys \<and>
   handleLeadForm toLowerCaseASCII (memStorage exampleHost) exampleJid (utf16 ''3'')
       (formState 2 Map.empty) MemStorage_new
     = (Inr timelinePrompt,
        formState 3 [utf16 ''budget'' \<mapsto> Str ([0x20A6] @ utf16 ''1M - '' @ [0x20A6] @ utf16 ''3M'')],
        MemStorage_new) \<and>
   handleLeadForm toLowerCaseASCII (memStorage exampleHost) exampleJid
       (utf16 '' around 2 million '') (formState 2 Map.empty) MemStorage_new
     = (Inr timelinePrompt,
        formState 3 [utf16 ''budget'' \<mapsto> Str (utf16 ''around 2 million'')], MemStorage_new)"
proof -
  have h1: "toLowerCaseASCII (trim (utf16 ''3'')) \<notin> set exitKeywords"
    by (simp add: string_defs)
  have h2: "toLowerCaseASCII (trim (utf16 '' around 2 million '')) \<notin> set exitKeywords"
    by (simp add: string_defs)
  have h3: "trim (utf16 '' around 2 million '') \<notin> dom budgetOptions"
    by (simp add: string_defs budgetOptions_def)
  have h4: "trim (utf16 '' around 2 million '') \<notin> set objectPrototypeKeys"
    by (simp add: string_defs objectPrototypeKeys_def)
  have t3: "trim (utf16 ''3'') = utf16 ''3''"
    by (simp add: string_defs)
  have t: "trim (utf16 '' around 2 million '') = utf16 ''around 2 million''"
    by (simp add: string_defs)
  from budget_timeline_decoding [where toLowerCase = toLowerCaseASCII
      and messageText = "utf16 ''3''" and userState = "formState 2 Map.empty"
      and storage = "memStorage exampleHost" and phoneNumber = exampleJid
      and s = MemStorage_new, OF h1]
    budget_timeline_decoding [where toLowerCase = toLowerCaseASCII
      and messageText = "utf16 '' around 2 million ''" and userState = "formState 2 Map.empty"
      and storage = "memStorage exampleHost" and phoneNumber = exampleJid
      and s = MemStorage_new, OF h2]
  show ?thesis
    using h1 h2 h3 h4 t3 t
    by (simp add: formState_def)
qed

text \<open>
  C4, on the code. The tables of steps 2 and 3 are object literals, and the lookup
  \<open>budgetOptions[input] || input\<close> also finds what \<open>Object.prototype\<close> gives every object.
  At step 2 the input \<open>constructor\<close> is no exit keyword and no code of the table, and the
  step advances to 3; but the budget stored is the inherited member (the function
  \<open>Object\<close>), not the text typed. Step 3 does the same with \<open>toString\<close>.
\<close>

theorem budget_step_constructor_not_verbatim:
  "toLowerCaseASCII (trim (utf16 ''constructor'')) \<notin> set exitKeywords \<and>
   utf16 ''constructor'' \<notin> dom budgetOptions \<and>
   handleLeadForm toLowerCaseASCII (memStorage exampleHost) exampleJid (utf16 ''constructor'')
       (formState 2 [utf16 ''projectType'' \<mapsto> Str (utf16 ''1'')]) MemStorage_new
     = (Inr timelinePrompt,
        formState 3 [utf16 ''projectType'' \<mapsto> Str (utf16 ''1''),
                     utf16 ''budget'' \<mapsto> Inherited (utf16 ''constructor'')],
        MemStorage_new) \<and>
   leadData (fst (snd (handleLeadForm toLowerCaseASCII (memStorage exampleHost) exampleJid
       (utf16 ''constructor'') (formState 2 [utf16 ''projectType'' \<mapsto> Str (utf16 ''1'')])
       MemStorage_new))) (utf16 ''budget'') \<noteq> Some (Str (utf16 ''constructor'')) \<and>
   ToString (Inherited (utf16 ''constructor'')) = utf16 ''function Object() { [native code] }'' \<and>
   toLowerCaseASCII (trim (utf16 ''toString'')) \<notin> set exitKeywords \<and>
   utf16 ''toString'' \<notin> dom timelineOptions \<and>
   leadData (fst (snd (handleLeadForm toLowerCaseASCII (memStorage exampleHost) exampleJid
       (utf16 ''toString'') (formState 3 [utf16 ''projectType'' \<mapsto> Str (utf16 ''1'')])
       MemStorage_new))) (utf16 ''timeline'') = Some (Inherited (utf16 ''toString''))"
  by (simp add: handleLeadForm_def Let_def string_defs formState_def object_defs)

section \<open>Inbound messages\<close>

text \<open>
  C7. A message with no text (no \<open>conversation\<close> and no extended text, or empty ones) is
  dropped: \<open>handleMessage\<close> resolves and hands back the process state it was given,
  whatever that state is. Nothing is written to the repository, nothing is sent, and the
  session map and the session objects are as before.
\<close>

theorem empty_text_noop:
  assumes "extractText msg = []"
  shows "handleMessage toLowerCase storage sk msg w = (None, w)"
  using assms by (simp add: handleMessage_def)

theorem empty_text_noop_witness:
  "extractText \<lparr>key = \<lparr>remoteJid = exampleJid, fromMe = False\<rparr>,
                 message = Some \<lparr>conversation = Some [], extendedTextMessage = None\<rparr>\<rparr> = [] \<and>
   handleMessage toLowerCaseASCII (memStorage exampleHost) (Some reliableSock)
       \<lparr>key = \<lparr>remoteJid = exampleJid, fromMe = False\<rparr>,
        message = Some \<lparr>conversation = Some [], extendedTextMessage = None\<rparr>\<rparr>
       (formWorld 2 Map.empty)
     = (None, formWorld 2 Map.empty)"
proof -
  have h: "extractText \<lparr>key = \<lparr>remoteJid = exampleJid, fromMe = False\<rparr>,
                 message = Some \<lparr>conversation = Some [], extendedTextMessage = None\<rparr>\<rparr> = []"
    by (simp add: extractText_def or_str_def)
  from empty_text_noop [OF h] show ?thesis
    using h by simp
qed

text \<open>
  C10. A session that is in the map, in the lead form at step 5, receives a text that is
  not an exit keyword; the repository stores the inbound message and then rejects
  \<open>createLead\<close> with \<open>e\<close>. Then \<open>handleMessage\<close> rejects with \<open>e\<close>. Nothing is sent and no
  reply is stored: the repository is left as the rejected \<open>createLead\<close> left it. The
  session map is as before, and the session object keeps \<open>lead_form\<close> and step 5, with
  the name just stored in the draft. \<open>handleMessages\<close> catches \<open>e\<close> and logs it.
\<close>

theorem createLead_rejection_keeps_step5:
  assumes nonempty: "extractText msg \<noteq> []"
      and present: "userStates w (remoteJid (key msg)) = Some r"
      and inform: "currentMenu (heap w r) = utf16 ''lead_form''"
      and step: "leadFormStep (heap w r) = 5"
      and notexit: "toLowerCase (trim (extractText msg)) \<notin> set exitKeywords"
      and received: "createBotMessage storage
                       (receivedEntry (remoteJid (key msg)) (extractText msg)) (store w)
                     = (Inr ob, s1)"
      and rejected: "createLead storage
                       (insertLeadOf (remoteJid (key msg))
                          ((leadData (heap w r))(utf16 ''name'' \<mapsto> Str (trim (extractText msg)))))
                       s1
                     = (Inl e, s2)"
  shows "handleMessage toLowerCase storage sk msg w =
           (Some e,
            w\<lparr>heap := (heap w)(r := (heap w r)\<lparr>leadData :=
                  (leadData (heap w r))(utf16 ''name'' \<mapsto> Str (trim (extractText msg)))\<rparr>),
              store := s2\<rparr>) \<and>
         (case handleMessage toLowerCase storage sk msg w of
            (outcome, w') \<Rightarrow>
              sockCalls w' = sockCalls w \<and> userStates w' = userStates w \<and>
              currentMenu (sessionOf w' (remoteJid (key msg))) = utf16 ''lead_form'' \<and>
              leadFormStep (sessionOf w' (remoteJid (key msg))) = 5 \<and>
              leadData (sessionOf w' (remoteJid (key msg))) (utf16 ''name'')
                = Some (Str (trim (extractText msg))) \<and>
              (\<not> fromMe (key msg) \<and> sock self = sk \<longrightarrow>
                 handleMessages toLowerCase storage (msg # rest) self w
                   = (None, logError (utf16 ''Error handling message:'') e w')))"
proof -
  have stay: "\<not> (toLowerCase (trim (extractText msg)) = utf16 ''menu'' \<or>
                toLowerCase (trim (extractText msg)) = utf16 ''cancel'' \<or>
                toLowerCase (trim (extractText msg)) = utf16 ''exit'' \<or>
                toLowerCase (trim (extractText msg)) = utf16 ''back'')"
    using notexit by (simp add: exitKeywords_def del: utf16_Cons)
  have form: "handleLeadForm toLowerCase storage (remoteJid (key msg)) (extractText msg)
                (heap w r) s1
              = (Inl e, (heap w r)\<lparr>leadData :=
                   (leadData (heap w r))(utf16 ''name'' \<mapsto> Str (trim (extractText msg)))\<rparr>, s2)"
    using stay step rejected
    by (simp add: handleLeadForm_def Let_def insertLeadOf_def del: utf16_Cons)
  have run: "handleMessage toLowerCase storage sk msg w =
           (Some e,
            w\<lparr>heap := (heap w)(r := (heap w r)\<lparr>leadData :=
                  (leadData (heap w r))(utf16 ''name'' \<mapsto> Str (trim (extractText msg)))\<rparr>),
              store := s2\<rparr>)"
    using nonempty present inform received form
    by (simp add: handleMessage_def Let_def receivedEntry_def del: utf16_Cons)
  show ?thesis
    using present inform step
    by (simp add: run handleMessages_def sessionOf_def del: utf16_Cons)
qed

theorem createLead_rejection_keeps_step5_witness:
  "fst (handleMessage toLowerCaseASCII rejectingStorage (Some reliableSock)
          (textMessage exampleJid (utf16 ''Ada'')) (formWorld 5 exampleDraft))
     = Some (Error (utf16 ''connection refused'')) \<and>
   sockCalls (snd (handleMessage toLowerCaseASCII rejectingStorage (Some reliableSock)
          (textMessage exampleJid (utf16 ''Ada'')) (formWorld 5 exampleDraft))) = [] \<and>
   leadFormStep (sessionOf (snd (handleMessage toLowerCaseASCII rejectingStorage
          (Some reliableSock) (textMessage exampleJid (utf16 ''Ada''))
          (formWorld 5 exampleDraft))) exampleJid) = 5 \<and>
   leadData (sessionOf (snd (handleMessage toLowerCaseASCII rejectingStorage
          (Some reliableSock) (textMessage exampleJid (utf16 ''Ada''))
          (formWorld 5 exampleDraft))) exampleJid) (utf16 ''name'') = Some (Str (utf16 ''Ada'')) \<and>
   fst (handleMessages toLowerCaseASCII rejectingStorage [textMessage exampleJid (utf16 ''Ada'')]
          (connectedBot reliableSock) (formWorld 5 exampleDraft)) = None \<and>
   logs (snd (handleMessages toLowerCaseASCII rejectingStorage
          [textMessage exampleJid (utf16 ''Ada'')] (connectedBot reliableSock)
          (formWorld 5 exampleDraft)))
     = [LogError (utf16 ''Error handling message:'') (Error (utf16 ''connection refused''))]"
proof -
  let ?m = "textMessage exampleJid (utf16 ''Ada'')"
  let ?w = "formWorld 5 exampleDraft"
  have h1: "extractText ?m \<noteq> []"
    by simp
  have h2: "userStates ?w (remoteJid (key ?m)) = Some 0"
    by (simp add: formWorld_def)
  have h3: "currentMenu (heap ?w 0) = utf16 ''lead_form''"
    by (simp add: formWorld_def formState_def)
  have h4: "leadFormStep (heap ?w 0) = 5"
    by (simp add: formWorld_def formState_def)
  have h5: "toLowerCaseASCII (trim (extractText ?m)) \<notin> set exitKeywords"
    by (simp add: string_defs)
  obtain ob s1 where h6:
    "createBotMessage rejectingStorage (receivedEntry (remoteJid (key ?m)) (extractText ?m))
       (store ?w) = (Inr ob, s1)"
    using rejectingStorage_accepts by (rule acceptsMessagesE)
  have h7: "createLead rejectingStorage
              (insertLeadOf (remoteJid (key ?m))
                 ((leadData (heap ?w 0))(utf16 ''name'' \<mapsto> Str (trim (extractText ?m))))) s1
            = (Inl (Error (utf16 ''connection refused'')), s1)"
    by (simp add: rejectingStorage_def)
  have t: "trim (utf16 ''Ada'') = utf16 ''Ada''"
    by (simp add: string_defs)
  from createLead_rejection_keeps_step5 [where toLowerCase = toLowerCaseASCII and msg = ?m
      and w = ?w and storage = rejectingStorage and sk = "Some reliableSock" and r = 0
      and self = "connectedBot reliableSock" and rest = "[]", OF h1 h2 h3 h4 h5 h6 h7]
  show ?thesis
    using t
    by (simp add: case_prod_beta connectedBot_def logError_def formWorld_def sessionOf_def
          formState_def emptyWorld_def)
qed

section \<open>Connection manager\<close>

text \<open>
  C6. Of a batch, \<open>handleMessages\<close> looks at the first message only. It does nothing at
  all when the batch is empty or the first message is flagged \<open>fromMe\<close>. Otherwise it
  forwards the message to \<open>handleMessage\<close>, and when that rejects with \<open>e\<close> the process
  state is the one \<open>handleMessage\<close> left, with one entry more at the end of the log: the
  error \<open>e\<close> under the message \<open>Error handling message:\<close>. In every case its own promise
  resolves, so nothing reaches the transport's event loop.
\<close>

theorem handleMessages_boundary:
  "fst (handleMessages toLowerCase storage messages self w) = None \<and>
   (\<forall>m rest. messages = m # rest \<longrightarrow>
      handleMessages toLowerCase storage messages self w
        = handleMessages toLowerCase storage [m] self w) \<and>
   (messages = [] \<or> (\<exists>m rest. messages = m # rest \<and> fromMe (key m)) \<longrightarrow>
      handleMessages toLowerCase storage messages self w = (None, w)) \<and>
   (\<forall>m rest e w'. messages = m # rest \<and> \<not> fromMe (key m) \<and>
        handleMessage toLowerCase storage (sock self) m w = (Some e, w') \<longrightarrow>
      handleMessages toLowerCase storage messages self w
        = (None, w'\<lparr>logs := logs w' @ [LogError (utf16 ''Error handling message:'') e]\<rparr>) \<and>
      logs (snd (handleMessages toLowerCase storage messages self w))
        = logs w' @ [LogError (utf16 ''Error handling message:'') e]) \<and>
   (\<forall>m rest w'. messages = m # rest \<and> \<not> fromMe (key m) \<and>
        handleMessage toLowerCase storage (sock self) m w = (None, w') \<longrightarrow>
      handleMessages toLowerCase storage messages self w = (None, w'))"
  by (auto simp: handleMessages_def logError_def simp del: utf16_Cons
        split: list.splits prod.splits option.splits)

theorem handleMessages_boundary_witness:
  "fst (handleMessage toLowerCaseASCII (memStorage exampleHost) (Some brokenSock)
          (textMessage exampleJid (utf16 ''hi'')) (emptyWorld MemStorage_new))
     = Some (Error (utf16 ''Connection Closed'')) \<and>
   logs (snd (handleMessage toLowerCaseASCII (memStorage exampleHost) (Some brokenSock)
          (textMessage exampleJid (utf16 ''hi'')) (emptyWorld MemStorage_new))) = [] \<and>
   fst (handleMessages toLowerCaseASCII (memStorage exampleHost)
          [textMessage exampleJid (utf16 ''hi''), textMessage exampleJid (utf16 ''8'')]
          (connectedBot brokenSock) (emptyWorld MemStorage_new)) = None \<and>
   logs (snd (handleMessages toLowerCaseASCII (memStorage exampleHost)
          [textMessage exampleJid (utf16 ''hi''), textMessage exampleJid (utf16 ''8'')]
          (connectedBot brokenSock) (emptyWorld MemStorage_new)))
     = [LogError (utf16 ''Error handling message:'') (Error (utf16 ''Connection Closed''))] \<and>
   sockCalls (snd (handleMessages toLowerCaseASCII (memStorage exampleHost)
          [textMessage exampleJid (utf16 ''hi''), textMessage exampleJid (utf16 ''8'')]
          (connectedBot brokenSock) (emptyWorld MemStorage_new)))
     = [SendMessage exampleJid getMainMenu] \<and>
   handleMessages toLowerCaseASCII (memStorage exampleHost)
       [(textMessage exampleJid (utf16 ''hi''))\<lparr>key := \<lparr>remoteJid = exampleJid, fromMe = True\<rparr>\<rparr>]
       (connectedBot brokenSock) (emptyWorld MemStorage_new)
     = (None, emptyWorld MemStorage_new)"
proof -
  let ?m = "textMessage exampleJid (utf16 ''hi'')"
  let ?own = "?m\<lparr>key := \<lparr>remoteJid = exampleJid, fromMe = True\<rparr>\<rparr>"
  let ?w = "emptyWorld MemStorage_new"
  let ?st = "memStorage exampleHost"
  let ?r = "handleMessage toLowerCaseASCII ?st (Some brokenSock) ?m ?w"
  have fails: "fst ?r = Some (Error (utf16 ''Connection Closed'')) \<and> logs (snd ?r) = [] \<and>
               sockCalls (snd ?r) = [SendMessage exampleJid getMainMenu]"
    by (simp add: handleMessage_def Let_def handleMainMenu_def label_defs marker_defs
          string_defs storage_defs brokenSock_def freshState_def emptyWorld_def)
  then have run: "handleMessage toLowerCaseASCII ?st (sock (connectedBot brokenSock)) ?m ?w
      = (Some (Error (utf16 ''Connection Closed'')), snd ?r)"
    by (simp add: connectedBot_def prod_eq_iff)
  have own: "fromMe (key ?own)"
    by simp
  have other: "\<not> fromMe (key ?m)"
    by simp
  note first = handleMessages_boundary [where toLowerCase = toLowerCaseASCII and storage = ?st
      and messages = "[?m, textMessage exampleJid (utf16 ''8'')]"
      and self = "connectedBot brokenSock" and w = ?w]
  note rule4 = first [THEN conjunct2, THEN conjunct2, THEN conjunct2, THEN conjunct1, rule_format]
  have caught: "handleMessages toLowerCaseASCII ?st [?m, textMessage exampleJid (utf16 ''8'')]
                  (connectedBot brokenSock) ?w
      = (None, (snd ?r)\<lparr>logs := logs (snd ?r) @
           [LogError (utf16 ''Error handling message:'') (Error (utf16 ''Connection Closed''))]\<rparr>)"
    by (rule rule4 [OF conjI [OF refl conjI [OF other run]], THEN conjunct1])
  note second = handleMessages_boundary [where toLowerCase = toLowerCaseASCII and storage = ?st
      and messages = "[?own]" and self = "connectedBot brokenSock" and w = ?w]
  note rule3 = second [THEN conjunct2, THEN conjunct2, THEN conjunct1, rule_format]
  have mine: "[?own] = [] \<or> (\<exists>m rest. [?own] = m # rest \<and> fromMe (key m))"
    using own by (intro disjI2 exI conjI) (rule refl)
  have dropped: "handleMessages toLowerCaseASCII ?st [?own] (connectedBot brokenSock) ?w
      = (None, ?w)"
    by (rule rule3 [OF mine])
  show ?thesis
    using fails by (simp add: caught dropped del: utf16_Cons)
qed

text \<open>
  C2. On a connection update whose status is \<open>close\<close>, \<open>isConnected\<close> becomes false. When
  the cause is logged-out no timer is set and the debounce flag is cleared; when it is
  restart-required one call of \<open>start\<close> is set for 2000 ms later; when it is timed-out
  or connection-lost, one for 5000 ms later; for any other cause, or none, one for 3000 ms
  later. The status codes of the causes are those of the transport library; the cases
  are told apart as long as logged-out, restart-required and the timeout codes differ.
\<close>

theorem close_event_reconnect_policy:
  assumes close: "connection update = Some (utf16 ''close'')"
      and d1: "loggedOut reason \<noteq> restartRequired reason"
      and d2: "loggedOut reason \<noteq> timedOut reason" "loggedOut reason \<noteq> connectionLost reason"
      and d3: "restartRequired reason \<noteq> timedOut reason"
              "restartRequired reason \<noteq> connectionLost reason"
  shows "case handleConnectionUpdate reason update self w of
           (self', w') \<Rightarrow>
             \<not> isConnected self' \<and>
             (disconnectStatusCode update = Some (loggedOut reason) \<longrightarrow>
                timers w' = timers w \<and> \<not> qrCodeGenerated self') \<and>
             (disconnectStatusCode update = Some (restartRequired reason) \<longrightarrow>
                timers w' = timers w @ [(2000, CallStart)]) \<and>
             (disconnectStatusCode update = Some (timedOut reason) \<or>
              disconnectStatusCode update = Some (connectionLost reason) \<longrightarrow>
                timers w' = timers w @ [(5000, CallStart)]) \<and>
             (disconnectStatusCode update \<noteq> Some (loggedOut reason) \<and>
              disconnectStatusCode update \<noteq> Some (restartRequired reason) \<and>
              disconnectStatusCode update \<noteq> Some (timedOut reason) \<and>
              disconnectStatusCode update \<noteq> Some (connectionLost reason) \<longrightarrow>
                timers w' = timers w @ [(3000, CallStart)])"
  using assms
  by (auto simp: handleConnectionUpdate_def Let_def setTimeout_def logInfo_def
        simp del: utf16_Cons split: option.splits)

theorem close_event_reconnect_policy_witness:
  "connection (closeUpdate 401) = Some (utf16 ''close'') \<and>
   loggedOut baileysDisconnectReason \<noteq> restartRequired baileysDisconnectReason \<and>
   loggedOut baileysDisconnectReason \<noteq> timedOut baileysDisconnectReason \<and>
   loggedOut baileysDisconnectReason \<noteq> connectionLost baileysDisconnectReason \<and>
   restartRequired baileysDisconnectReason \<noteq> timedOut baileysDisconnectReason \<and>
   restartRequired baileysDisconnectReason \<noteq> connectionLost baileysDisconnectReason \<and>
   \<not> isConnected (fst (handleConnectionUpdate baileysDisconnectReason (closeUpdate 401)
        (connectedBot reliableSock) (emptyWorld MemStorage_new))) \<and>
   \<not> qrCodeGenerated (fst (handleConnectionUpdate baileysDisconnectReason (closeUpdate 401)
        (connectedBot reliableSock) (emptyWorld MemStorage_new))) \<and>
   timers (snd (handleConnectionUpdate baileysDisconnectReason (closeUpdate 401)
        (connectedBot reliableSock) (emptyWorld MemStorage_new))) = [] \<and>
   timers (snd (handleConnectionUpdate baileysDisconnectReason (closeUpdate 515)
        (connectedBot reliableSock) (emptyWorld MemStorage_new))) = [(2000, CallStart)] \<and>
   timers (snd (handleConnectionUpdate baileysDisconnectReason (closeUpdate 408)
        (connectedBot reliableSock) (emptyWorld MemStorage_new))) = [(5000, CallStart)] \<and>
   timers (snd (handleConnectionUpdate baileysDisconnectReason (closeUpdate 428)
        (connectedBot reliableSock) (emptyWorld MemStorage_new))) = [(3000, CallStart)]"
proof -
  let ?R = baileysDisconnectReason
  have c: "connection (closeUpdate n) = Some (utf16 ''close'')" for n
    by (simp add: closeUpdate_def)
  have s: "disconnectStatusCode (closeUpdate n) = Some n" for n
    by (simp add: closeUpdate_def disconnectStatusCode_def)
  have d1: "loggedOut ?R \<noteq> restartRequired ?R"
    and d2: "loggedOut ?R \<noteq> timedOut ?R" "loggedOut ?R \<noteq> connectionLost ?R"
    and d3: "restartRequired ?R \<noteq> timedOut ?R" "restartRequired ?R \<noteq> connectionLost ?R"
    by (simp_all add: baileysDisconnectReason_def)
  note policy = close_event_reconnect_policy [where reason = ?R
      and self = "connectedBot reliableSock" and w = "emptyWorld MemStorage_new :: MemStorage World",
      OF c d1 d2 d3]
  from policy [of 401] policy [of 515] policy [of 408] policy [of 428]
  show ?thesis
    using c [of 401] d1 d2 d3
    by (simp add: s case_prod_beta baileysDisconnectReason_def)
qed

text \<open>
  C5. \<open>generatePairingCode\<close> rejects, with no call to the transport, when there is no
  connection handle, when \<open>isConnected\<close> is false, and when the phone number without its
  non-digit characters has fewer than 10 or more than 15 digits. Otherwise it asks the
  transport once, for exactly those digits, and the code the transport answers is the
  result.
\<close>

theorem generatePairingCode_guards:
  "(sock self = None \<or> \<not> isConnected self \<or> length (stripNonDigits phoneNumber) < 10 \<or>
    length (stripNonDigits phoneNumber) > 15 \<longrightarrow>
      (\<exists>e. fst (generatePairingCode phoneNumber self w) = Inl e) \<and>
      sockCalls (snd (generatePairingCode phoneNumber self w)) = sockCalls w) \<and>
   (\<forall>k. sock self = Some k \<and> isConnected self \<and> 10 \<le> length (stripNonDigits phoneNumber) \<and>
      length (stripNonDigits phoneNumber) \<le> 15 \<longrightarrow>
      sockCalls (snd (generatePairingCode phoneNumber self w))
        = sockCalls w @ [RequestPairingCode (stripNonDigits phoneNumber)] \<and>
      (\<forall>c \<in> set (stripNonDigits phoneNumber). isDigit c) \<and>
      (\<forall>code. requestPairingCode k (stripNonDigits phoneNumber) = Inr code \<longrightarrow>
         fst (generatePairingCode phoneNumber self w) = Inr code))"
  by (auto simp: generatePairingCode_def Let_def logInfo_def logError_def stripNonDigits_def
        simp del: utf16_Cons split: option.splits sum.splits)

theorem generatePairingCode_guards_witness:
  "length (stripNonDigits (utf16 ''+234 810-751'')) < 10 \<and>
   fst (generatePairingCode (utf16 ''+234 810-751'') (connectedBot reliableSock)
          (emptyWorld MemStorage_new))
     = Inl (Error (utf16 ''Failed to generate pairing code: Invalid phone number format'')) \<and>
   sockCalls (snd (generatePairingCode (utf16 ''+234 810-751'') (connectedBot reliableSock)
          (emptyWorld MemStorage_new))) = [] \<and>
   sock (connectedBot reliableSock) = Some reliableSock \<and> isConnected (connectedBot reliableSock) \<and>
   stripNonDigits (utf16 ''+234 810 751 6059'') = utf16 ''2348107516059'' \<and>
   sockCalls (snd (generatePairingCode (utf16 ''+234 810 751 6059'') (connectedBot reliableSock)
          (emptyWorld MemStorage_new))) = [RequestPairingCode (utf16 ''2348107516059'')] \<and>
   fst (generatePairingCode (utf16 ''+234 810 751 6059'') (connectedBot reliableSock)
          (emptyWorld MemStorage_new)) = Inr (utf16 ''ABCD1234'')"
proof -
  let ?b = "connectedBot reliableSock"
  let ?w = "emptyWorld MemStorage_new :: MemStorage World"
  have short: "length (stripNonDigits (utf16 ''+234 810-751'')) < 10"
    by (simp add: stripNonDigits_def isDigit_def)
  have good: "stripNonDigits (utf16 ''+234 810 751 6059'') = utf16 ''2348107516059''"
    by (simp add: stripNonDigits_def isDigit_def)
  have handle: "sock ?b = Some reliableSock" "isConnected ?b"
    by (simp_all add: connectedBot_def)
  have answer: "requestPairingCode reliableSock n = Inr (utf16 ''ABCD1234'')" for n
    by (simp add: reliableSock_def)
  have msg: "fst (generatePairingCode (utf16 ''+234 810-751'') ?b ?w)
     = Inl (Error (utf16 ''Failed to generate pairing code: Invalid phone number format''))"
    by (simp add: generatePairingCode_def Let_def connectedBot_def stripNonDigits_def isDigit_def)
  from generatePairingCode_guards [where self = ?b and w = ?w
        and phoneNumber = "utf16 ''+234 810-751''"]
      generatePairingCode_guards [where self = ?b and w = ?w
        and phoneNumber = "utf16 ''+234 810 751 6059''"]
  show ?thesis
    using short good handle answer msg by simp
qed

section \<open>The quote scenario\<close>

lemma summary_undefined_text:
  "\<not> str_includes (summaryMessage Undefined Undefined Undefined Undefined) (utf16 ''Ada'') \<and>
   str_includes (summaryMessage Undefined Undefined Undefined Undefined)
     (utf16 ''Thank you undefined!'') \<and>
   str_includes (summaryMessage Undefined Undefined Undefined Undefined)
     (utf16 ''Project: undefined'') \<and>
   str_includes (summaryMessage Undefined Undefined Undefined Undefined)
     (utf16 ''Budget: undefined'') \<and>
   str_includes (summaryMessage Undefined Undefined Undefined Undefined)
     (utf16 ''Timeline: undefined'')"
  by code_simp

text \<open>
  C1, on the code. A fresh session sends \<open>8\<close>, \<open>1\<close>, \<open>2\<close>, \<open>3 weeks\<close>,
  \<open>build me an app\<close>, \<open>Ada\<close>. The replies are the quote prompt, the budget, timeline,
  description and name prompts, and a summary; one lead is created, with the name \<open>Ada\<close>,
  the project type \<open>1\<close>, the budget label of code 2, the timeline and description as
  typed and the status \<open>new\<close>; the session is back at \<open>main\<close>, step 0, empty draft.
  But the summary is built after the draft has been replaced by \<open>{}\<close>: it reads
  \<open>Thank you undefined!\<close> and lists \<open>undefined\<close> for project, budget and timeline, and
  \<open>Ada\<close> does not occur in it.
\<close>

theorem quote_scenario_summary_undefined:
  "case handleMessage_seq toLowerCaseASCII (memStorage exampleHost) (Some reliableSock)
          (map (textMessage exampleJid)
             [utf16 ''8'', utf16 ''1'', utf16 ''2'', utf16 ''3 weeks'',
              utf16 ''build me an app'', utf16 ''Ada''])
          (emptyWorld MemStorage_new) of
     (outcome, w') \<Rightarrow>
       outcome = None \<and>
       sockCalls w' = map (SendMessage exampleJid)
         [getQuoteInfo_text, budgetPrompt, timelinePrompt, descriptionPrompt, namePrompt,
          summaryMessage Undefined Undefined Undefined Undefined] \<and>
       map (\<lambda>lead. map (getProp lead)
              [utf16 ''phoneNumber'', utf16 ''name'', utf16 ''projectType'', utf16 ''budget'',
               utf16 ''timeline'', utf16 ''description'', utf16 ''status''])
           (MemStorage_getLeads (store w'))
         = [[Str exampleJid, Str (utf16 ''Ada''), Str (utf16 ''1''),
             Str ([0x20A6] @ utf16 ''500K - '' @ [0x20A6] @ utf16 ''1M''),
             Str (utf16 ''3 weeks''), Str (utf16 ''build me an app''), Str (utf16 ''new'')]] \<and>
       sessionOf w' exampleJid
         = \<lparr>currentMenu = utf16 ''main'', leadFormStep = 0, leadData = Map.empty\<rparr> \<and>
       \<not> str_includes (summaryMessage Undefined Undefined Undefined Undefined) (utf16 ''Ada'') \<and>
       str_includes (summaryMessage Undefined Undefined Undefined Undefined)
         (utf16 ''Thank you undefined!'') \<and>
       str_includes (summaryMessage Undefined Undefined Undefined Undefined)
         (utf16 ''Project: undefined'')"
proof -
  let ?run = "handleMessage_seq toLowerCaseASCII (memStorage exampleHost) (Some reliableSock)
          (map (textMessage exampleJid)
             [utf16 ''8'', utf16 ''1'', utf16 ''2'', utf16 ''3 weeks'',
              utf16 ''build me an app'', utf16 ''Ada''])
          (emptyWorld MemStorage_new)"
  have run: "fst ?run = None \<and>
       sockCalls (snd ?run) = map (SendMessage exampleJid)
         [getQuoteInfo_text, budgetPrompt, timelinePrompt, descriptionPrompt, namePrompt,
          summaryMessage Undefined Undefined Undefined Undefined] \<and>
       map (\<lambda>lead. map (getProp lead)
              [utf16 ''phoneNumber'', utf16 ''name'', utf16 ''projectType'', utf16 ''budget'',
               utf16 ''timeline'', utf16 ''description'', utf16 ''status''])
           (MemStorage_getLeads (store (snd ?run)))
         = [[Str exampleJid, Str (utf16 ''Ada''), Str (utf16 ''1''),
             Str ([0x20A6] @ utf16 ''500K - '' @ [0x20A6] @ utf16 ''1M''),
             Str (utf16 ''3 weeks''), Str (utf16 ''build me an app''), Str (utf16 ''new'')]] \<and>
       sessionOf (snd ?run) exampleJid
         = \<lparr>currentMenu = utf16 ''main'', leadFormStep = 0, leadData = Map.empty\<rparr>"
    by (simp add: message_defs handleMainMenu_def handleLeadForm_def getQuoteInfo_def
          label_defs string_defs object_defs storage_defs)
  show ?thesis
    using run summary_undefined_text
    by (simp only: case_prod_beta) blast
qed

section \<open>Lead updates\<close>

text \<open>An update that carries only \<open>status\<close> leaves the other fields of the lead as they
  are, apart from \<open>updatedAt\<close>.\<close>

lemma updateLead_status_only:
  assumes "map_of (leads st) ident = Some lead"
      and "f \<noteq> utf16 ''status''" and "f \<noteq> utf16 ''updatedAt''"
  shows "case MemStorage_updateLead h ident [utf16 ''status'' \<mapsto> v] st of
           (result, st') \<Rightarrow> \<exists>updated. result = Inr (Some updated) \<and> updated f = lead f"
  using assms
  by (simp add: MemStorage_updateLead_def Let_def del: utf16_Cons)

text \<open>
  C8, on the code. The route \<open>PATCH /api/leads/:id\<close> passes the request body to
  \<open>updateLead\<close>, which merges every key of it into the lead. On the lead of the scenario,
  the body \<open>{"name": "Mallory"}\<close> is answered with status 200 and replaces the name.
\<close>

theorem patchLead_overwrites_name:
  "map (\<lambda>lead. getProp lead (utf16 ''name'')) (MemStorage_getLeads storeWithAda)
     = [Str (utf16 ''Ada'')] \<and>
   status (fst (patchLead (memStorage exampleHost) (utf16 ''uuid-0'')
                  [utf16 ''name'' \<mapsto> Str (utf16 ''Mallory'')] storeWithAda)) = 200 \<and>
   map (\<lambda>lead. getProp lead (utf16 ''name''))
       (MemStorage_getLeads (snd (patchLead (memStorage exampleHost) (utf16 ''uuid-0'')
                  [utf16 ''name'' \<mapsto> Str (utf16 ''Mallory'')] storeWithAda)))
     = [Str (utf16 ''Mallory'')] \<and>
   map (\<lambda>lead. getProp lead (utf16 ''status''))
       (MemStorage_getLeads (snd (patchLead (memStorage exampleHost) (utf16 ''uuid-0'')
                  [utf16 ''name'' \<mapsto> Str (utf16 ''Mallory'')] storeWithAda)))
     = [Str (utf16 ''new'')]"
  by (simp add: patchLead_def storeWithAda_def adaLead_def storage_defs Let_def getProp_def
        exampleJid_def)

end
